theory Spec2Isabelle
  imports
    Main
    "HOL-Library.Word"
    "HOL-Library.Multiset"
    "HOL-Library.Char_ord"
    "HOL-Library.List_Lexorder"
begin

unbundle bit_operations_syntax

section \<open>Errors\<close>

text \<open>
  Go errors are values. Failures of the operating system and of the libraries are the
  nullary constructors; \<open>Fault\<close> is any other failure they report, by its description.
  \<open>Errorf fmt args e\<close> is \<open>fmt.Errorf(fmt, args..., e)\<close> with a \<open>%w\<close> verb wrapping \<open>e\<close>
  (the message is kept as format and arguments, not rendered); \<open>ErrorfPlain\<close> is
  \<open>fmt.Errorf\<close> without \<open>%w\<close>; \<open>JoinError\<close> is the value built by \<open>errors.Join\<close>.
  A Go \<open>error\<close> that may be \<open>nil\<close> is an \<open>error option\<close>.
\<close>

datatype error =
    ErrNotExist
  | ErrInvalid
  | ErrClosed
  | ErrIsDir
  | ErrLoop
  | ErrPermission
  | ErrWriteTooLong
  | ErrMissedWriting nat
  | ErrHeader
  | ErrEncoderOption
  | NilDereference
  | Fault string
  | Errorf string "string list" error
  | ErrorfPlain string "string list"
  | JoinError "error list"

text \<open>\<open>errors.Join\<close>: nil arguments are dropped; nil when nothing is left.\<close>

definition errors_Join :: "error option list \<Rightarrow> error option" where
  "errors_Join errs =
     (case List.map_filter id errs of [] \<Rightarrow> None | e # es \<Rightarrow> Some (JoinError (e # es)))"

text \<open>
  \<open>mentions t e\<close>: the error \<open>t\<close> is \<open>e\<close> itself or is reached from \<open>e\<close> by unwrapping
  (\<open>Unwrap() error\<close> of a wrapped error, \<open>Unwrap() []error\<close> of a joined one), the
  traversal of \<open>errors.Is\<close>.
\<close>

fun mentions :: "error \<Rightarrow> error \<Rightarrow> bool"
  and mentions_list :: "error \<Rightarrow> error list \<Rightarrow> bool" where
  "mentions t (Errorf f a e) = (t = Errorf f a e \<or> mentions t e)"
| "mentions t (JoinError es) = (t = JoinError es \<or> mentions_list t es)"
| "mentions t e = (t = e)"
| "mentions_list t [] = False"
| "mentions_list t (e # es) = (mentions t e \<or> mentions_list t es)"

section \<open>The world: files, handles, network log, slices\<close>

type_synonym bytes = string

text \<open>
  A path names a regular file with its content and permission bits, a symbolic link with
  its target, or a directory with its permission bits and reported size. Paths are keys;
  the target of a link is looked up as it is written.
\<close>

datatype node =
    File bytes "32 word"
  | Symlink string
  | Dir "32 word" int

text \<open>
  \<open>fds\<close> is the table of handles opened for writing: entry \<open>i\<close> is the path that handle
  \<open>i\<close> writes to, or \<open>None\<close> once closed. \<open>requests\<close> logs the addresses of the network
  requests issued, oldest first. \<open>heap\<close> holds the backing arrays of string slices, by
  address.
\<close>

record world =
  fs :: "string \<Rightarrow> node option"
  fds :: "string option list"
  requests :: "string list"
  heap :: "string list list"

text \<open>A \<open>*os.File\<close>: nil, or a handle of the table.\<close>

type_synonym os_File = "nat option"

definition is_open :: "world \<Rightarrow> nat \<Rightarrow> bool" where
  "is_open w fd = (fd < length (fds w) \<and> fds w ! fd \<noteq> None)"

text \<open>\<open>(*os.File).Close\<close>: \<open>ErrInvalid\<close> on a nil receiver, \<open>ErrClosed\<close> on a closed handle.\<close>

definition file_Close :: "os_File \<Rightarrow> world \<Rightarrow> error option \<times> world" where
  "file_Close f w =
     (case f of
        None \<Rightarrow> (Some ErrInvalid, w)
      | Some fd \<Rightarrow>
          if is_open w fd then (None, w\<lparr>fds := (fds w)[fd := None]\<rparr>)
          else (Some ErrClosed, w))"

section \<open>The container writer and the compression encoder\<close>

text \<open>
  \<open>tar.Header\<close> with the fields the program sets. \<open>Size\<close> and \<open>Mode\<close> are \<open>int64\<close>
  values; no arithmetic is done on them.
\<close>

record tar_Header =
  Typeflag :: "8 word"
  Name :: string
  Linkname :: string
  Size :: int
  Mode :: int

definition TypeRegA :: "8 word" where "TypeRegA = 0"
definition TypeReg :: "8 word" where "TypeReg = 0x30"
definition TypeLink :: "8 word" where "TypeLink = 0x31"
definition TypeSymlink :: "8 word" where "TypeSymlink = 0x32"
definition TypeChar :: "8 word" where "TypeChar = 0x33"
definition TypeBlock :: "8 word" where "TypeBlock = 0x34"
definition TypeDir :: "8 word" where "TypeDir = 0x35"
definition TypeFifo :: "8 word" where "TypeFifo = 0x36"

definition isHeaderOnlyType :: "8 word \<Rightarrow> bool" where
  "isHeaderOnlyType flag =
     (flag = TypeLink \<or> flag = TypeSymlink \<or> flag = TypeChar \<or> flag = TypeBlock
      \<or> flag = TypeDir \<or> flag = TypeFifo)"

text \<open>
  The \<open>tar.Writer\<close> of the standard library, by its contract: the entries written so
  far, each a header with the data bytes written after it (the last one is the current
  entry); the number of data bytes the current entry still expects; the sticky error
  of the writer (an earlier failure of the layers beneath); and whether \<open>Close\<close> has
  run. The compressed byte image that reaches the file is not modelled: the content of
  an archive is the entry list.
\<close>

record tar_Writer =
  tw_entries :: "(tar_Header \<times> bytes) list"
  tw_remaining :: nat
  tw_err :: "error option"
  tw_closed :: bool

definition tar_NewWriter :: tar_Writer where
  "tar_NewWriter = \<lparr>tw_entries = [], tw_remaining = 0, tw_err = None, tw_closed = False\<rparr>"

text \<open>
  \<open>Flush\<close> reports the sticky error, or the bytes the current entry still misses.
  \<open>ErrWriteAfterClose\<close> of the library is \<open>ErrClosed\<close> here.
\<close>

definition tar_Flush :: "tar_Writer \<Rightarrow> error option" where
  "tar_Flush tw =
     (if tw_closed tw then Some ErrClosed
      else case tw_err tw of
        Some e \<Rightarrow> Some e
      | None \<Rightarrow> if 0 < tw_remaining tw then Some (ErrMissedWriting (tw_remaining tw)) else None)"

text \<open>
  \<open>WriteHeader\<close> flushes, promotes the legacy type flag 0 to a regular file (or to a
  directory when the name ends in a slash), rejects a negative size, and starts a new
  entry; an entry of a header-only type (links, devices, directories) takes no data.
\<close>

definition promoted :: "tar_Header \<Rightarrow> 8 word" where
  "promoted h =
     (if Typeflag h = TypeRegA
      then (if Name h \<noteq> [] \<and> last (Name h) = CHR ''/'' then TypeDir else TypeReg)
      else Typeflag h)"

definition tar_WriteHeader :: "tar_Writer \<Rightarrow> tar_Header \<Rightarrow> error option \<times> tar_Writer" where
  "tar_WriteHeader tw h =
     (case tar_Flush tw of
        Some e \<Rightarrow> (Some e, tw)
      | None \<Rightarrow>
          let flag = promoted h
          in if \<not> isHeaderOnlyType flag \<and> Size h < 0 then (Some ErrHeader, tw)
             else (None, tw\<lparr>tw_entries := tw_entries tw @ [(h\<lparr>Typeflag := flag\<rparr>, [])],
                            tw_remaining := (if isHeaderOnlyType flag then 0 else nat (Size h))\<rparr>))"

text \<open>Data bytes go to the current entry, the last of the list.\<close>

definition add_data :: "(tar_Header \<times> bytes) list \<Rightarrow> bytes \<Rightarrow> (tar_Header \<times> bytes) list" where
  "add_data es d =
     (case rev es of [] \<Rightarrow> [] | (h, c) # r \<Rightarrow> rev r @ [(h, c @ d)])"

text \<open>
  A reader delivers \<open>rd_data\<close> and then ends, with the error \<open>rd_err\<close> when there is one.
\<close>

record reader =
  rd_data :: bytes
  rd_err :: "error option"

text \<open>
  \<open>io.Copy(tw, r)\<close> into the container writer. Nothing is written when the reader has no
  data. Otherwise a writer in error refuses; bytes beyond what the entry expects are cut
  off and the copy stops with \<open>ErrWriteTooLong\<close>; else all the data is written and the
  result is the reader's own error.
\<close>

definition tar_Copy :: "tar_Writer \<Rightarrow> reader \<Rightarrow> error option \<times> tar_Writer" where
  "tar_Copy tw r =
     (if rd_data r = [] then (rd_err r, tw)
      else if tw_closed tw then (Some ErrClosed, tw)
      else case tw_err tw of
        Some e \<Rightarrow> (Some e, tw)
      | None \<Rightarrow>
          if tw_remaining tw < length (rd_data r)
          then (Some ErrWriteTooLong,
                tw\<lparr>tw_entries := add_data (tw_entries tw) (take (tw_remaining tw) (rd_data r)),
                   tw_remaining := 0\<rparr>)
          else (rd_err r,
                tw\<lparr>tw_entries := add_data (tw_entries tw) (rd_data r),
                   tw_remaining := tw_remaining tw - length (rd_data r)\<rparr>))"

text \<open>
  \<open>(*tar.Writer).Close\<close>: nil on a writer already closed; the sticky error when there
  is one; else the result of the last flush, and the writer is closed. The layer beneath
  is not consulted: a failure of the encoder shows here only once it has become the
  sticky error of the writer.
\<close>

definition tar_Close :: "tar_Writer \<Rightarrow> error option \<times> tar_Writer" where
  "tar_Close tw =
     (if tw_closed tw then (None, tw)
      else case tw_err tw of
        Some e \<Rightarrow> (Some e, tw)
      | None \<Rightarrow> (tar_Flush tw, tw\<lparr>tw_closed := True\<rparr>))"

text \<open>
  The \<open>zstd.Encoder\<close>: its level, its sticky error (a failure of an earlier write or of
  the file beneath), and whether it has been closed. \<open>Close\<close> reports the sticky error.
\<close>

record zstd_Encoder =
  enc_level :: nat
  enc_err :: "error option"
  enc_closed :: bool

definition enc_Close :: "zstd_Encoder \<Rightarrow> error option \<times> zstd_Encoder" where
  "enc_Close e = (enc_err e, e\<lparr>enc_closed := True\<rparr>)"

section \<open>The archive writers and their Close\<close>

record Tarball =
  tb_file :: os_File
  tb_encoder :: zstd_Encoder
  tb_writer :: tar_Writer

record TarZstWriter =
  tzw_file :: os_File
  tzw_zstWr :: zstd_Encoder
  tzw_tarWr :: tar_Writer

text \<open>
  \<open>Tarball.Close\<close> (main.go): each layer is closed in turn, and each failure is joined
  to the named result \<open>err\<close>, which the bare \<open>return\<close> hands back.
\<close>

definition Tarball_Close :: "Tarball \<Rightarrow> world \<Rightarrow> error option \<times> Tarball \<times> world" where
  "Tarball_Close tb w =
     (let err0 = None;
          (closeErr1, tw') = tar_Close (tb_writer tb);
          err1 = (case closeErr1 of
                    Some c \<Rightarrow> errors_Join [err0, Some (Errorf ''failed to close writer: %w'' [] c)]
                  | None \<Rightarrow> err0);
          (closeErr2, enc') = enc_Close (tb_encoder tb);
          err2 = (case closeErr2 of
                    Some c \<Rightarrow> errors_Join [err1, Some (Errorf ''failed to close encoder: %w'' [] c)]
                  | None \<Rightarrow> err1);
          (closeErr3, w') = file_Close (tb_file tb) w;
          err3 = (case closeErr3 of
                    Some c \<Rightarrow> errors_Join [err2, Some (Errorf ''failed to close file: %w'' [] c)]
                  | None \<Rightarrow> err2)
      in (err3, tb\<lparr>tb_writer := tw', tb_encoder := enc'\<rparr>, w'))"

text \<open>
  \<open>TarZstWriter.Close\<close> (tarzst.go): the three layers are closed, the first failure is
  stored in the local \<open>err\<close>, and the function ends with \<open>return nil\<close>.
\<close>

definition TarZstWriter_Close ::
  "TarZstWriter \<Rightarrow> world \<Rightarrow> error option \<times> TarZstWriter \<times> world" where
  "TarZstWriter_Close tzw w =
     (let err0 = None;
          (te, tw') = tar_Close (tzw_tarWr tzw);
          (ze, enc') = enc_Close (tzw_zstWr tzw);
          (fe, w') = file_Close (tzw_file tzw) w;
          err1 = (case te of
                    Some c \<Rightarrow> (if err0 = None then Some (Errorf ''TarZstWriter.Close: tar: %w'' [] c) else err0)
                  | None \<Rightarrow> err0);
          err2 = (case ze of
                    Some c \<Rightarrow> (if err1 = None then Some (Errorf ''TarZstWriter.Close: zst: %w'' [] c) else err1)
                  | None \<Rightarrow> err1);
          err3 = (case fe of
                    Some c \<Rightarrow> (if err2 = None then Some (Errorf ''TarZstWriter.Close: file: %w'' [] c) else err2)
                  | None \<Rightarrow> err2)
      in (None, tzw\<lparr>tzw_tarWr := tw', tzw_zstWr := enc'\<rparr>, w'))"

section \<open>File modes and file information\<close>

text \<open>\<open>os.FileMode\<close> is a \<open>uint32\<close>: permission bits below, type bits above.\<close>

type_synonym FileMode = "32 word"

definition ModeDir :: FileMode where "ModeDir = 0x80000000"
definition ModeSymlink :: FileMode where "ModeSymlink = 0x8000000"
definition ModePerm :: FileMode where "ModePerm = 0x1FF"



record FileInfo =
  fi_Mode :: FileMode
  fi_Size :: int

text \<open>
  What a stat of a node reports. The size of a symbolic link is the length of its target
  (POSIX); the size of a directory is the one stored with it. Of the mode of a file and
  of a directory only the nine permission bits are kept (no setuid, setgid or sticky bit).
\<close>

fun info_of :: "node \<Rightarrow> FileInfo" where
  "info_of (File c perm) = \<lparr>fi_Mode = perm AND ModePerm, fi_Size = int (length c)\<rparr>"
| "info_of (Symlink t) = \<lparr>fi_Mode = ModeSymlink OR ModePerm, fi_Size = int (length t)\<rparr>"
| "info_of (Dir perm sz) = \<lparr>fi_Mode = ModeDir OR (perm AND ModePerm), fi_Size = sz\<rparr>"

section \<open>The environment\<close>

text \<open>The outcome of \<open>http.Get\<close>: a transport error, or a response with its status code and body.\<close>

datatype http_result =
    TransportError error
  | Response nat reader

text \<open>\<open>Meta\<close> of main.go; \<open>xxh3.Uint128\<close> is a 128-bit value.\<close>

record Meta =
  Version :: string
  Hash :: "128 word"

text \<open>
  An entry that the extractor of the archiver library hands to its callback
  (\<open>archiver.File\<close>): the path in the archive, the link target, what \<open>Mode()\<close> and
  \<open>Size()\<close> return, and the result of \<open>Open()\<close>.
\<close>

record archiver_File =
  NameInArchive :: string
  LinkTarget :: string
  f_Mode :: FileMode
  f_Size :: int
  f_Open :: "error + reader"

text \<open>
  What \<open>archiver.Identify\<close> finds: a format that can extract, with the entries of the
  archive in order and the error at which reading them breaks off (if any), or a format
  that cannot.
\<close>

datatype format =
    Extractor "archiver_File list" "error option"
  | NoExtractor string

text \<open>
  What the program cannot decide by itself is a parameter: \<open>create_fault p\<close> is the error
  of the operating system when a file is created at \<open>p\<close> (missing or read-only directory,
  name too long), or \<open>None\<close> when it can be created; \<open>http_Get\<close> is the network;
  \<open>xxh3_128\<close> is the digest of the \<open>xxh3\<close> library over the bytes streamed into one
  hasher; \<open>json_Marshal\<close> is \<open>encoding/json\<close> on a \<open>Meta\<close>; \<open>archiver_Identify\<close> is the
  format detection of the archiver library on a file name and its content;
  \<open>generatePackage\<close> is the package generation step of main.go (lines 154 to 242: the
  scaffolding files, the metadata and two runs of the go tool), with its arguments in
  the order of the source.
\<close>

record env =
  create_fault :: "string \<Rightarrow> error option"
  http_Get :: "string \<Rightarrow> http_result"
  xxh3_128 :: "bytes \<Rightarrow> 128 word"
  json_Marshal :: "Meta \<Rightarrow> error + bytes"
  archiver_Identify :: "string \<Rightarrow> reader \<Rightarrow> error + format"
  generatePackage ::
    "bool \<Rightarrow> string \<Rightarrow> string \<Rightarrow> string \<Rightarrow> string \<Rightarrow> string \<Rightarrow> string list \<Rightarrow> world
      \<Rightarrow> error option \<times> world"

section \<open>File system operations\<close>

text \<open>
  Following symbolic links: at most \<open>n\<close> nodes are visited, then \<open>ErrLoop\<close>. The result
  is the path of the first node that is not a link (it may be missing). The target of a
  link is looked up as a key, as it is written: this is exact for absolute targets and
  for links in the working directory; a relative target of a link in another directory
  is not taken from the directory of the link.
\<close>

fun resolve :: "(string \<Rightarrow> node option) \<Rightarrow> nat \<Rightarrow> string \<Rightarrow> error + string" where
  "resolve f 0 p = Inl ErrLoop"
| "resolve f (Suc n) p =
     (case f p of Some (Symlink t) \<Rightarrow> resolve f n t | _ \<Rightarrow> Inr p)"

definition max_links :: nat where "max_links = 41"

text \<open>\<open>os.Stat\<close> follows links; \<open>os.Lstat\<close> and \<open>os.Readlink\<close> look at the path itself.\<close>

definition os_Stat :: "world \<Rightarrow> string \<Rightarrow> error + FileInfo" where
  "os_Stat w p =
     (case resolve (fs w) max_links p of
        Inl e \<Rightarrow> Inl e
      | Inr q \<Rightarrow> (case fs w q of None \<Rightarrow> Inl ErrNotExist | Some n \<Rightarrow> Inr (info_of n)))"

definition os_Lstat :: "world \<Rightarrow> string \<Rightarrow> error + FileInfo" where
  "os_Lstat w p = (case fs w p of None \<Rightarrow> Inl ErrNotExist | Some n \<Rightarrow> Inr (info_of n))"

definition os_Readlink :: "world \<Rightarrow> string \<Rightarrow> error + string" where
  "os_Readlink w p =
     (case fs w p of
        None \<Rightarrow> Inl ErrNotExist
      | Some (Symlink t) \<Rightarrow> Inr t
      | Some _ \<Rightarrow> Inl ErrInvalid)"

text \<open>
  \<open>os.Open\<close> follows links and gives a reader of what it reaches: the content of a file;
  for a directory a reader that fails. Read permissions are not modelled.
\<close>

definition os_Open :: "world \<Rightarrow> string \<Rightarrow> error + reader" where
  "os_Open w p =
     (case resolve (fs w) max_links p of
        Inl e \<Rightarrow> Inl e
      | Inr q \<Rightarrow>
          (case fs w q of
             None \<Rightarrow> Inl ErrNotExist
           | Some (File c perm) \<Rightarrow> Inr \<lparr>rd_data = c, rd_err = None\<rparr>
           | Some (Dir perm sz) \<Rightarrow> Inr \<lparr>rd_data = [], rd_err = Some ErrIsDir\<rparr>
           | Some (Symlink t) \<Rightarrow> Inl ErrLoop))"

text \<open>
  \<open>os.Create\<close> follows links, fails where the environment says so or on a directory,
  and otherwise leaves an empty file (a new one has mode 0644, an old one is truncated)
  and a new handle, the next of the table.
\<close>

definition os_Create :: "env \<Rightarrow> string \<Rightarrow> world \<Rightarrow> error + (nat \<times> world)" where
  "os_Create ev p w =
     (case resolve (fs w) max_links p of
        Inl e \<Rightarrow> Inl e
      | Inr q \<Rightarrow>
          (case create_fault ev q of
             Some e \<Rightarrow> Inl e
           | None \<Rightarrow>
               (case fs w q of
                  Some (Dir perm sz) \<Rightarrow> Inl ErrIsDir
                | Some (Symlink t) \<Rightarrow> Inl ErrLoop
                | Some (File c perm) \<Rightarrow>
                    Inr (length (fds w),
                         w\<lparr>fs := (fs w)(q \<mapsto> File [] perm), fds := fds w @ [Some q]\<rparr>)
                | None \<Rightarrow>
                    Inr (length (fds w),
                         w\<lparr>fs := (fs w)(q \<mapsto> File [] 0x1A4), fds := fds w @ [Some q]\<rparr>))))"

text \<open>Appending bytes to the file a handle writes to.\<close>

definition file_append :: "world \<Rightarrow> string \<Rightarrow> bytes \<Rightarrow> world" where
  "file_append w q d =
     (case fs w q of
        Some (File c perm) \<Rightarrow> w\<lparr>fs := (fs w)(q \<mapsto> File (c @ d) perm)\<rparr>
      | _ \<Rightarrow> w\<lparr>fs := (fs w)(q \<mapsto> File d 0x1A4)\<rparr>)"

text \<open>
  \<open>io.Copy(f, r)\<close> into a file: \<open>ErrInvalid\<close> on a nil \<open>*os.File\<close>, \<open>ErrClosed\<close> on a closed
  handle; else the data of the reader is appended and the result is the reader's error.
  A write to an open handle does not fail here.
\<close>

definition file_Copy :: "os_File \<Rightarrow> reader \<Rightarrow> world \<Rightarrow> error option \<times> world" where
  "file_Copy f r w =
     (case f of
        None \<Rightarrow> (Some ErrInvalid, w)
      | Some fd \<Rightarrow>
          if is_open w fd
          then (rd_err r, file_append w (the (fds w ! fd)) (rd_data r))
          else (Some ErrClosed, w))"

section \<open>Creating an archive writer\<close>

text \<open>
  The options of \<open>zstd.NewWriter\<close> are functions on the encoder's configuration that may
  fail; \<open>NewWriter\<close> starts from the default level and applies them in order, stopping at
  the first failure.
\<close>

type_synonym EOption = "nat \<Rightarrow> error + nat"

definition SpeedDefault :: nat where "SpeedDefault = 2"
definition SpeedBestCompression :: nat where "SpeedBestCompression = 4"

definition WithEncoderLevel :: "nat \<Rightarrow> EOption" where
  "WithEncoderLevel l = (\<lambda>level. if l \<le> 0 \<or> 5 \<le> l then Inl ErrEncoderOption else Inr l)"

fun apply_options :: "EOption list \<Rightarrow> nat \<Rightarrow> error + nat" where
  "apply_options [] level = Inr level"
| "apply_options (opt # opts) level =
     (case opt level of Inl e \<Rightarrow> Inl e | Inr level' \<Rightarrow> apply_options opts level')"

definition zstd_NewWriter :: "EOption list \<Rightarrow> error + zstd_Encoder" where
  "zstd_NewWriter opts =
     (case apply_options opts SpeedDefault of
        Inl e \<Rightarrow> Inl e
      | Inr level \<Rightarrow> Inr \<lparr>enc_level = level, enc_err = None, enc_closed = False\<rparr>)"

text \<open>
  The variadic \<open>opts\<close> is \<open>None\<close> when it is nil (no options passed), and then replaced by
  the best-compression level.
\<close>

definition default_opts :: "EOption list option \<Rightarrow> EOption list" where
  "default_opts opts =
     (case opts of None \<Rightarrow> [WithEncoderLevel SpeedBestCompression] | Some os \<Rightarrow> os)"

text \<open>
  \<open>newTarball\<close> (main.go). The result of \<open>os.MkdirAll\<close> is ignored by the source; whether
  the file can then be created is the environment's \<open>create_fault\<close>. The Go function
  returns a pair of a pointer and an error.
\<close>

definition newTarball ::
  "env \<Rightarrow> string \<Rightarrow> EOption list option \<Rightarrow> world \<Rightarrow> Tarball option \<times> error option \<times> world" where
  "newTarball ev filename opts w =
     (let opts' = default_opts opts in
      case os_Create ev filename w of
        Inl err \<Rightarrow> (None, Some (Errorf ''failed to create file %q: %w'' [filename] err), w)
      | Inr (file, w1) \<Rightarrow>
          (case zstd_NewWriter opts' of
             Inl err \<Rightarrow>
               (None, Some (Errorf ''failed to create zstd encoder: %w'' [] err),
                snd (file_Close (Some file) w1))
           | Inr encoder \<Rightarrow>
               (Some \<lparr>tb_file = Some file, tb_encoder = encoder, tb_writer = tar_NewWriter\<rparr>,
                None, w1)))"

text \<open>\<open>createTarZst\<close> (tarzst.go), the same steps for a \<open>TarZstWriter\<close>.\<close>

definition createTarZst ::
  "env \<Rightarrow> string \<Rightarrow> EOption list option \<Rightarrow> world \<Rightarrow> TarZstWriter option \<times> error option \<times> world" where
  "createTarZst ev fn opts w =
     (let opts' = default_opts opts in
      case os_Create ev fn w of
        Inl err \<Rightarrow> (None, Some (Errorf ''createTarZst: create output file: %w'' [] err), w)
      | Inr (file, w1) \<Rightarrow>
          (case zstd_NewWriter opts' of
             Inl err \<Rightarrow>
               (None, Some (Errorf ''createTarZst: create zstd writer: %w'' [] err),
                snd (file_Close (Some file) w1))
           | Inr zstWr \<Rightarrow>
               (Some \<lparr>tzw_file = Some file, tzw_zstWr = zstWr, tzw_tarWr = tar_NewWriter\<rparr>,
                None, w1)))"

section \<open>Appending entries\<close>

text \<open>\<open>Tarball.Append\<close>: header, then the content, then a flush.\<close>

definition Tarball_Append :: "Tarball \<Rightarrow> tar_Header \<Rightarrow> reader \<Rightarrow> error option \<times> Tarball" where
  "Tarball_Append tb h r =
     (case tar_WriteHeader (tb_writer tb) h of
        (Some err, tw1) \<Rightarrow> (Some (Errorf ''failed to write header: %w'' [] err), tb\<lparr>tb_writer := tw1\<rparr>)
      | (None, tw1) \<Rightarrow>
          (case tar_Copy tw1 r of
             (Some err, tw2) \<Rightarrow> (Some (Errorf ''failed to copy data: %w'' [] err), tb\<lparr>tb_writer := tw2\<rparr>)
           | (None, tw2) \<Rightarrow>
               (case tar_Flush tw2 of
                  Some err \<Rightarrow> (Some (Errorf ''failed to flush data: %w'' [] err), tb\<lparr>tb_writer := tw2\<rparr>)
                | None \<Rightarrow> (None, tb\<lparr>tb_writer := tw2\<rparr>))))"

definition TarZstWriter_Append ::
  "TarZstWriter \<Rightarrow> tar_Header \<Rightarrow> reader \<Rightarrow> error option \<times> TarZstWriter" where
  "TarZstWriter_Append tzw h r =
     (case tar_WriteHeader (tzw_tarWr tzw) h of
        (Some err, tw1) \<Rightarrow> (Some (Errorf ''TarZstWriter.Append: header: %w'' [] err), tzw\<lparr>tzw_tarWr := tw1\<rparr>)
      | (None, tw1) \<Rightarrow>
          (case tar_Copy tw1 r of
             (Some err, tw2) \<Rightarrow> (Some (Errorf ''TarZstWriter.Append: copy: %w'' [] err), tzw\<lparr>tzw_tarWr := tw2\<rparr>)
           | (None, tw2) \<Rightarrow>
               (case tar_Flush tw2 of
                  Some err \<Rightarrow> (Some (Errorf ''TarZstWriter.Append: copy: %w'' [] err), tzw\<lparr>tzw_tarWr := tw2\<rparr>)
                | None \<Rightarrow> (None, tzw\<lparr>tzw_tarWr := tw2\<rparr>))))"

text \<open>
  The header \<open>AppendFile\<close> builds from the \<open>Lstat\<close> of the source: name, mode and size;
  the other fields keep their zero values. For a link the target is added.
\<close>

definition file_header :: "string \<Rightarrow> FileInfo \<Rightarrow> tar_Header" where
  "file_header dest info =
     \<lparr>Typeflag = 0, Name = dest, Linkname = [], Size = fi_Size info, Mode = uint (fi_Mode info)\<rparr>"

text \<open>
  \<open>Tarball.AppendFile\<close> (main.go): \<open>os.Open\<close> of the source, \<open>os.Lstat\<close> of the source,
  \<open>os.Readlink\<close> when the mode has the link bit, then \<open>Append\<close> with the opened file as
  the content reader.
\<close>

definition Tarball_AppendFile ::
  "Tarball \<Rightarrow> string \<Rightarrow> string \<Rightarrow> world \<Rightarrow> error option \<times> Tarball" where
  "Tarball_AppendFile tb dest src w =
     (case os_Open w src of
        Inl err \<Rightarrow> (Some (Errorf ''failed to open %q: %w'' [src] err), tb)
      | Inr f \<Rightarrow>
          (case os_Lstat w src of
             Inl err \<Rightarrow> (Some (Errorf ''failed to read file info: %w'' [] err), tb)
           | Inr info \<Rightarrow>
               (case (if fi_Mode info AND ModeSymlink \<noteq> 0
                      then (case os_Readlink w src of
                              Inl err \<Rightarrow> Inl (Errorf ''failed to read symlink: %w'' [] err)
                            | Inr nm \<Rightarrow> Inr ((file_header dest info)\<lparr>Linkname := nm\<rparr>))
                      else Inr (file_header dest info)) of
                  Inl e \<Rightarrow> (Some e, tb)
                | Inr header \<Rightarrow>
                    (case Tarball_Append tb header f of
                       (Some err, tb') \<Rightarrow> (Some (Errorf ''failed to append file %q: %w'' [src] err), tb')
                     | (None, tb') \<Rightarrow> (None, tb')))))"

text \<open>\<open>TarZstWriter.AppendFile\<close> (tarzst.go), the same steps.\<close>

definition TarZstWriter_AppendFile ::
  "TarZstWriter \<Rightarrow> string \<Rightarrow> string \<Rightarrow> world \<Rightarrow> error option \<times> TarZstWriter" where
  "TarZstWriter_AppendFile tzw dstPth srcFn w =
     (case os_Open w srcFn of
        Inl err \<Rightarrow> (Some (Errorf ''TarZstWriter.AppendFile: open `%s`: %w'' [srcFn] err), tzw)
      | Inr f \<Rightarrow>
          (case os_Lstat w srcFn of
             Inl err \<Rightarrow> (Some (Errorf ''TarZstWriter.AppendFile: stat: %w'' [] err), tzw)
           | Inr fi \<Rightarrow>
               (case (if fi_Mode fi AND ModeSymlink \<noteq> 0
                      then (case os_Readlink w srcFn of
                              Inl err \<Rightarrow> Inl (Errorf ''TarZstWriter.AppendFile: read symlink: %w'' [] err)
                            | Inr nm \<Rightarrow> Inr ((file_header dstPth fi)\<lparr>Linkname := nm\<rparr>))
                      else Inr (file_header dstPth fi)) of
                  Inl e \<Rightarrow> (Some e, tzw)
                | Inr h \<Rightarrow>
                    (case TarZstWriter_Append tzw h f of
                       (Some err, tzw') \<Rightarrow> (Some (Errorf ''TarZstWriter.AppendFile: %w'' [] err), tzw')
                     | (None, tzw') \<Rightarrow> (None, tzw')))))"

section \<open>Strings, paths and addresses\<close>





fun strings_Join :: "string list \<Rightarrow> string \<Rightarrow> string" where
  "strings_Join [] sep = []"
| "strings_Join [e] sep = e"
| "strings_Join (e # es) sep = e @ sep @ strings_Join es sep"

text \<open>The elements of a path between its slashes (the separator of Unix).\<close>

fun split_slash :: "string \<Rightarrow> string list" where
  "split_slash [] = [[]]"
| "split_slash (c # cs) =
     (if c = CHR ''/'' then [] # split_slash cs
      else (case split_slash cs of [] \<Rightarrow> [[c]] | x # xs \<Rightarrow> (c # x) # xs))"

text \<open>
  \<open>filepath.Clean\<close>, element by element, on a stack with its top first: empty elements
  and \<open>.\<close> are dropped; \<open>..\<close> removes the element before it, is dropped at the root, and
  is kept at the front of a relative path.
\<close>

definition clean_step :: "bool \<Rightarrow> string list \<Rightarrow> string \<Rightarrow> string list" where
  "clean_step rooted stack e =
     (if e = [] \<or> e = ''.'' then stack
      else if e = ''..'' then
        (case stack of
           [] \<Rightarrow> if rooted then [] else [''..'']
         | t # rest \<Rightarrow> if t = ''..'' then ''..'' # stack else rest)
      else e # stack)"

definition filepath_Clean :: "string \<Rightarrow> string" where
  "filepath_Clean path =
     (if path = [] then ''.''
      else let rooted = (hd path = CHR ''/'');
               stack = foldl (clean_step rooted) [] (split_slash path);
               body = strings_Join (rev stack) ''/''
           in if rooted then CHR ''/'' # body
              else if stack = [] then ''.'' else body)"

text \<open>\<open>filepath.Join\<close>: leading empty elements are skipped, the rest joined and cleaned.\<close>

definition filepath_Join :: "string list \<Rightarrow> string" where
  "filepath_Join elem =
     (case dropWhile (\<lambda>e. e = []) elem of
        [] \<Rightarrow> []
      | es \<Rightarrow> filepath_Clean (strings_Join es ''/''))"

text \<open>\<open>filepath.Base\<close>: the last element, after trailing slashes are removed.\<close>

definition filepath_Base :: "string \<Rightarrow> string" where
  "filepath_Base path =
     (if path = [] then ''.''
      else let stripped = rev (dropWhile (\<lambda>c. c = CHR ''/'') (rev path));
               elem = rev (takeWhile (\<lambda>c. c \<noteq> CHR ''/'') (rev stripped))
           in if elem = [] then ''/'' else elem)"

text \<open>\<open>filepath.Ext\<close>: from the last dot of the last element on; empty without a dot.\<close>

definition filepath_Ext :: "string \<Rightarrow> string" where
  "filepath_Ext path =
     (let elem = rev (takeWhile (\<lambda>c. c \<noteq> CHR ''/'') (rev path))
      in if CHR ''.'' \<in> set elem
         then CHR ''.'' # rev (takeWhile (\<lambda>c. c \<noteq> CHR ''.'') (rev elem))
         else [])"

text \<open>
  \<open>url.QueryEscape\<close>: letters, digits and \<open>- _ . ~\<close> stay; a space becomes \<open>+\<close>; any
  other byte becomes \<open>%\<close> and two upper-case hexadecimal digits.
\<close>

definition shouldEscape :: "char \<Rightarrow> bool" where
  "shouldEscape c =
     (let n = (of_char c :: nat)
      in \<not> ((97 \<le> n \<and> n \<le> 122) \<or> (65 \<le> n \<and> n \<le> 90) \<or> (48 \<le> n \<and> n \<le> 57)
             \<or> c = CHR ''-'' \<or> c = CHR ''_'' \<or> c = CHR ''.'' \<or> c = CHR ''~''))"

definition upperhex :: "nat \<Rightarrow> char" where
  "upperhex k = ''0123456789ABCDEF'' ! (k mod 16)"

definition escape_byte :: "char \<Rightarrow> string" where
  "escape_byte c =
     (if c = CHR '' '' then ''+''
      else if shouldEscape c
        then [CHR ''%'', upperhex ((of_char c :: nat) div 16), upperhex ((of_char c :: nat) mod 16)]
      else [c])"

definition url_QueryEscape :: "string \<Rightarrow> string" where
  "url_QueryEscape s = concat (map escape_byte s)"

section \<open>The caching downloader\<close>

definition cache_path :: "string \<Rightarrow> string \<Rightarrow> string" where
  "cache_path rootDir srcURL =
     filepath_Join [rootDir, ''piper-gen.cache'', url_QueryEscape srcURL]"

text \<open>
  The deferred function of \<open>download\<close>: it closes \<open>out\<close>, takes the close error when there
  is no error yet, and wraps whatever error there is. It runs on every return after
  \<open>os.Create\<close>, on the named results \<open>filename\<close> and \<open>retErr\<close>.
\<close>

definition download_deferred ::
  "string \<Rightarrow> os_File \<Rightarrow> string \<Rightarrow> error option \<Rightarrow> world \<Rightarrow> (string \<times> error option) \<times> world" where
  "download_deferred srcURL out filename retErr w =
     (let (closeErr, w') = file_Close out w;
          retErr1 = (if closeErr \<noteq> None \<and> retErr = None then closeErr else retErr);
          retErr2 = (case retErr1 of
                       Some e \<Rightarrow> Some (Errorf ''failed to download %q: %w'' [srcURL] e)
                     | None \<Rightarrow> None)
      in ((filename, retErr2), w'))"

text \<open>
  \<open>download\<close> (main.go). A successful \<open>os.Stat\<close> of the cache path ends the call. Else
  the file is created (the errors of \<open>os.MkdirAll\<close> and of \<open>os.Create\<close> are not looked at,
  so \<open>out\<close> may be nil), the request is issued, and the body is copied into the file.
  The status code of the response is not read. The result is the pair of the named
  results \<open>filename\<close> and \<open>retErr\<close>. Log lines are left out.
\<close>

definition download ::
  "env \<Rightarrow> string \<Rightarrow> string \<Rightarrow> world \<Rightarrow> (string \<times> error option) \<times> world" where
  "download ev rootDir srcURL w =
     (let filename = cache_path rootDir srcURL in
      case os_Stat w filename of
        Inr info \<Rightarrow> ((filename, None), w)
      | Inl e \<Rightarrow>
          let (out, w1) = (case os_Create ev filename w of
                             Inl err \<Rightarrow> (None, w)
                           | Inr (fd, w') \<Rightarrow> (Some fd, w'));
              w2 = w1\<lparr>requests := requests w1 @ [srcURL]\<rparr>
          in case http_Get ev srcURL of
               TransportError err \<Rightarrow>
                 download_deferred srcURL out []
                   (Some (Errorf ''failed to download %q: %w'' [srcURL] err)) w2
             | Response status body \<Rightarrow>
                 (case file_Copy out body w2 of
                    (Some err, w3) \<Rightarrow>
                      download_deferred srcURL out []
                        (Some (Errorf ''failed to download %q: %w'' [srcURL] err)) w3
                  | (None, w3) \<Rightarrow> download_deferred srcURL out filename None w3))"

section \<open>Repackaging a third-party archive\<close>





definition ArchiveFilename :: string where "ArchiveFilename = ''dist.tzst''"
definition MetadataFilename :: string where "MetadataFilename = ''dist.json''"


section \<open>Slices of strings\<close>

text \<open>
  A Go slice of strings is nil, or a window (offset, length) on a backing array of the
  heap. Two slices on the same array share its elements.
\<close>

datatype slice = NilSlice | Slice nat nat nat

definition slice_elems :: "string list list \<Rightarrow> slice \<Rightarrow> string list" where
  "slice_elems h s =
     (case s of
        NilSlice \<Rightarrow> []
      | Slice a off n \<Rightarrow> if a < length h then take n (drop off (h ! a)) else [])"

text \<open>
  \<open>append([]string(nil), xs...)\<close>: nil when there is nothing to append; else a new array
  holding a copy of the elements.
\<close>

definition append_nil :: "string list list \<Rightarrow> string list \<Rightarrow> string list list \<times> slice" where
  "append_nil h xs =
     (if xs = [] then (h, NilSlice) else (h @ [xs], Slice (length h) 0 (length xs)))"

text \<open>\<open>sort.Strings\<close> sorts the window of the slice in place, by byte-wise string order.\<close>

definition sort_Strings :: "string list list \<Rightarrow> slice \<Rightarrow> string list list" where
  "sort_Strings h s =
     (case s of
        NilSlice \<Rightarrow> h
      | Slice a off n \<Rightarrow>
          if a < length h
          then h[a := take off (h ! a) @ sort (take n (drop off (h ! a))) @ drop (off + n) (h ! a)]
          else h)"

section \<open>Fingerprint and metadata\<close>

text \<open>
  The state of the \<open>xxh3\<close> hasher is the sequence of bytes written to it so far; its
  128-bit sum is the environment's digest of that sequence. \<open>hashFile\<close> opens the file and
  copies it into the hasher; the hasher keeps what was read before a read error.
\<close>

definition hashFile :: "bytes \<Rightarrow> string \<Rightarrow> world \<Rightarrow> error option \<times> bytes" where
  "hashFile h filename w =
     (case os_Open w filename of
        Inl err \<Rightarrow> (Some err, h)
      | Inr f \<Rightarrow> (rd_err f, h @ rd_data f))"

text \<open>
  The loop of \<open>installMeta\<close> over the sorted names: the first file that fails ends it,
  with the name and the error.
\<close>

fun hash_files :: "world \<Rightarrow> string list \<Rightarrow> bytes \<Rightarrow> (string \<times> error) + bytes" where
  "hash_files w [] h = Inr h"
| "hash_files w (filename # rest) h =
     (case hashFile h filename w of
        (Some err, h') \<Rightarrow> Inl (filename, err)
      | (None, h') \<Rightarrow> hash_files w rest h')"

text \<open>\<open>os.WriteFile\<close>: create or truncate, write, close.\<close>

definition os_WriteFile :: "env \<Rightarrow> string \<Rightarrow> bytes \<Rightarrow> world \<Rightarrow> error option \<times> world" where
  "os_WriteFile ev name d w =
     (case os_Create ev name w of
        Inl err \<Rightarrow> (Some err, w)
      | Inr (fd, w1) \<Rightarrow>
          (case file_Copy (Some fd) \<lparr>rd_data = d, rd_err = None\<rparr> w1 of
             (werr, w2) \<Rightarrow>
               (case file_Close (Some fd) w2 of
                  (cerr, w3) \<Rightarrow> (if werr \<noteq> None then werr else cerr, w3))))"

text \<open>
  \<open>installMeta\<close> (main.go). The variadic \<open>filenames\<close> is the caller's slice. The first
  statement replaces the local variable by a copy, which is then sorted in place; the
  names are hashed in the order of the sorted copy.
\<close>

definition installMeta ::
  "env \<Rightarrow> string \<Rightarrow> string \<Rightarrow> slice \<Rightarrow> world \<Rightarrow> error option \<times> world" where
  "installMeta ev dir version filenames w =
     (let (h1, filenames') = append_nil (heap w) (slice_elems (heap w) filenames);
          w1 = w\<lparr>heap := sort_Strings h1 filenames'\<rparr>
      in case hash_files w1 (slice_elems (heap w1) filenames') [] of
           Inl (filename, err) \<Rightarrow> (Some (Errorf ''failed to hash file %q: %w'' [filename] err), w1)
         | Inr h \<Rightarrow>
             (case json_Marshal ev \<lparr>Version = version, Hash = xxh3_128 ev h\<rparr> of
                Inl err \<Rightarrow> (Some (Errorf ''failed to marshal metadata: %w'' [] err), w1)
              | Inr src \<Rightarrow>
                  (case os_WriteFile ev (filepath_Join [dir, MetadataFilename]) src w1 of
                     (Some err, w2) \<Rightarrow> (Some (Errorf ''failed to write metadata: %w'' [] err), w2)
                   | (None, w2) \<Rightarrow> (None, w2))))"

section \<open>Installing a voice\<close>

text \<open>
  \<open>copyFile\<close> (main.go). The source is read as it is when opened; source and destination
  are different files.
\<close>

definition copyFile :: "env \<Rightarrow> string \<Rightarrow> string \<Rightarrow> world \<Rightarrow> error option \<times> world" where
  "copyFile ev dest src w =
     (case os_Open w src of
        Inl err \<Rightarrow> (Some (Errorf ''failed to open %q: %w'' [src] err), w)
      | Inr srcFile \<Rightarrow>
          (case os_Create ev dest w of
             Inl err \<Rightarrow> (Some (Errorf ''failed to create %q: %w'' [dest] err), w)
           | Inr (destFile, w1) \<Rightarrow>
               (case file_Copy (Some destFile) srcFile w1 of
                  (copyErr, w2) \<Rightarrow>
                    (case file_Close (Some destFile) w2 of
                       (closeErr, w3) \<Rightarrow>
                         (case copyErr of
                            Some e \<Rightarrow> (Some (Errorf ''failed to copy %q to %q: %w'' [src, dest] e), w3)
                          | None \<Rightarrow>
                              (case closeErr of
                                 Some e \<Rightarrow> (Some (Errorf ''failed to close %q: %w'' [dest] e), w3)
                               | None \<Rightarrow> (None, w3)))))))"

text \<open>
  The \<open>switch\<close> of \<open>installVoice\<close> on an address: the name under which the file goes into
  the archive, or the error of the default branch.
\<close>

definition voice_basename :: "string \<Rightarrow> error + string" where
  "voice_basename url =
     (let basename = filepath_Base url;
          extension = filepath_Ext basename
      in if basename = ''MODEL_CARD'' then Inr basename
         else if extension = ''.onnx'' then Inr ''voice.onnx''
         else if extension = ''.json'' then Inr ''voice.json''
         else Inl (ErrorfPlain ''encountered unexpected file extension %q'' [extension]))"

text \<open>
  The loop of \<open>installVoice\<close> over the addresses, on the archive, the world and the local
  \<open>modelFilename\<close>; a \<open>return\<close> in the body ends it with the error.
\<close>

fun installVoice_loop ::
  "env \<Rightarrow> string \<Rightarrow> string list \<Rightarrow> Tarball \<Rightarrow> world \<Rightarrow> string
    \<Rightarrow> error option \<times> Tarball \<times> world \<times> string" where
  "installVoice_loop ev rootDir [] tarball w modelFilename = (None, tarball, w, modelFilename)"
| "installVoice_loop ev rootDir (url # urls) tarball w modelFilename =
     (case voice_basename url of
        Inl err \<Rightarrow> (Some err, tarball, w, modelFilename)
      | Inr basename \<Rightarrow>
          (case download ev rootDir url w of
             ((filename, Some err), w1) \<Rightarrow>
               (Some (Errorf ''failed to download voice: %w'' [] err), tarball, w1, modelFilename)
           | ((filename, None), w1) \<Rightarrow>
               (case Tarball_AppendFile tarball basename filename w1 of
                  (Some err, tarball') \<Rightarrow>
                    (Some (Errorf ''failed to add %q to tarball: %w'' [filename] err),
                     tarball', w1, modelFilename)
                | (None, tarball') \<Rightarrow>
                    installVoice_loop ev rootDir urls tarball' w1
                      (if basename = ''MODEL_CARD'' then filename else modelFilename))))"

text \<open>
  \<open>installVoice\<close> (main.go). \<open>newTarball\<close> returns a writer whenever it returns no
  error; a nil writer without an error would be dereferenced, which is the branch
  \<open>NilDereference\<close>.
\<close>

definition installVoice ::
  "env \<Rightarrow> string \<Rightarrow> string \<Rightarrow> string \<Rightarrow> string list \<Rightarrow> world \<Rightarrow> error option \<times> world" where
  "installVoice ev rootDir name version urls w =
     (let packageName = ''piper-voice-'' @ name;
          packageDirectory = filepath_Join [rootDir, packageName];
          packagePath = ''github.com/piper-tts-go/'' @ packageName;
          archiveFilename = filepath_Join [packageDirectory, ArchiveFilename]
      in case newTarball ev archiveFilename None w of
           (tbo, Some err, w1) \<Rightarrow> (Some (Errorf ''failed to create tarball: %w'' [] err), w1)
         | (None, None, w1) \<Rightarrow> (Some NilDereference, w1)
         | (Some tarball, None, w1) \<Rightarrow>
             (case installVoice_loop ev rootDir urls tarball w1 [] of
                (Some err, tarball', w2, modelFilename) \<Rightarrow> (Some err, w2)
              | (None, tarball', w2, modelFilename) \<Rightarrow>
                  (case Tarball_Close tarball' w2 of
                     (Some err, tarball'', w3) \<Rightarrow> (Some (Errorf ''failed to close tarball: %w'' [] err), w3)
                   | (None, tarball'', w3) \<Rightarrow>
                       (case copyFile ev (filepath_Join [packageDirectory, ''MODEL_CARD.txt''])
                               modelFilename w3 of
                          (Some err, w4) \<Rightarrow>
                            (Some (Errorf ''failed to copy MODEL_CARD.txt into package: %w'' [] err), w4)
                        | (None, w4) \<Rightarrow>
                            (case generatePackage ev True packageDirectory name packagePath name
                                    version [''MODEL_CARD.txt''] w4 of
                               (Some g, w5) \<Rightarrow> (Some (Errorf ''failed to generate package: %w'' [] g), w5)
                             | (None, w5) \<Rightarrow> (None, w5))))))"

section \<open>The world after a download\<close>

text \<open>
  The world that a call of \<open>download\<close> leaves when it created the cache file at \<open>q\<close>,
  issued the request for \<open>u\<close> and wrote the bytes \<open>d\<close>: the file holds \<open>d\<close>, the new
  handle is closed, the request is logged.
\<close>

definition after_download :: "world \<Rightarrow> string \<Rightarrow> string \<Rightarrow> bytes \<Rightarrow> world" where
  "after_download w q u d =
     w\<lparr>fs := (fs w)(q \<mapsto> File d 0x1A4), fds := fds w @ [None], requests := requests w @ [u]\<rparr>"

section \<open>Files that a voice bundle does not expect\<close>

text \<open>
  An address whose base name is not \<open>MODEL_CARD\<close> and whose extension is neither \<open>.onnx\<close>
  nor \<open>.json\<close>.
\<close>

definition unexpected_file :: "string \<Rightarrow> bool" where
  "unexpected_file url =
     (filepath_Base url \<noteq> ''MODEL_CARD''
      \<and> filepath_Ext (filepath_Base url) \<noteq> ''.onnx''
      \<and> filepath_Ext (filepath_Base url) \<noteq> ''.json'')"

section \<open>What repackaging accepts and writes\<close>




section \<open>Reading files and slices\<close>

text \<open>The bytes that reading the file at a path delivers (none when it cannot be opened).\<close>

definition file_bytes :: "world \<Rightarrow> string \<Rightarrow> bytes" where
  "file_bytes w p = (case os_Open w p of Inl e \<Rightarrow> [] | Inr r \<Rightarrow> rd_data r)"

text \<open>A slice of the program is nil or a window inside an array of the heap.\<close>

definition valid_slice :: "string list list \<Rightarrow> slice \<Rightarrow> bool" where
  "valid_slice h s =
     (case s of
        NilSlice \<Rightarrow> True
      | Slice a off n \<Rightarrow> a < length h \<and> off + n \<le> length (h ! a))"

text \<open>
  The world after the first two statements of \<open>installMeta\<close> on the names \<open>xs\<close>: a new
  array with the sorted names is on the heap, unless there are no names.
\<close>

definition sorted_copy_world :: "world \<Rightarrow> string list \<Rightarrow> world" where
  "sorted_copy_world w xs = w\<lparr>heap := (if xs = [] then heap w else heap w @ [sort xs])\<rparr>"

section \<open>When an entry can be appended\<close>





section \<open>Concrete worlds and writers\<close>

definition broken_TarZstWriter :: TarZstWriter where
  "broken_TarZstWriter =
     \<lparr>tzw_file = Some 0,
      tzw_zstWr = \<lparr>enc_level = 4, enc_err = Some (Fault ''write dist.tzst: no space left on device''),
                   enc_closed = False\<rparr>,
      tzw_tarWr = tar_NewWriter\<rparr>"

definition one_handle_world :: world where
  "one_handle_world =
     \<lparr>fs = Map.empty(''pkg/dist.tzst'' \<mapsto> File [] 0x1A4), fds = [Some ''pkg/dist.tzst''],
      requests = [], heap = []\<rparr>"

text \<open>
  An environment for the examples: one directory is read-only; two addresses answer, one
  with a page of status 404 and one whose body breaks off; any other address is
  unreachable. The digest and the serialisation stand in for the libraries.
\<close>

definition toy_digest :: "bytes \<Rightarrow> 128 word" where
  "toy_digest bs = foldl (\<lambda>h c. h * 31 + of_nat (of_char c)) 7 bs"

definition toy_marshal :: "Meta \<Rightarrow> error + bytes" where
  "toy_marshal m = Inr (Version m @ (if Hash m = 0 then ''#0'' else ''#''))"

definition ev0 :: env where
  "ev0 =
     \<lparr>create_fault = (\<lambda>p. if p = ''ro/dist.tzst'' then Some ErrPermission else None),
      http_Get = (\<lambda>u. if u = ''http://h/missing.onnx''
                         then Response 404 \<lparr>rd_data = ''Not Found'', rd_err = None\<rparr>
                       else if u = ''http://h/big.onnx''
                         then Response 200 \<lparr>rd_data = ''ONN'', rd_err = Some (Fault ''unexpected EOF'')\<rparr>
                       else TransportError (Fault ''no such host'')),
      xxh3_128 = toy_digest,
      json_Marshal = toy_marshal,
      archiver_Identify = (\<lambda>name r. Inl (Fault ''format unrecognized'')),
      generatePackage = (\<lambda>voicePkg pkgDir embedPkgName pkgPath assetName version embedPaths w.
                           (None, w))\<rparr>"

definition w0 :: world where
  "w0 = \<lparr>fs = Map.empty, fds = [], requests = [], heap = []\<rparr>"

text \<open>
  A cache directory with a model file of 15 bytes, a link to it whose target is written
  with 15 characters, and a link \<open>l\<close> to a file \<open>t\<close> of three bytes.
\<close>

definition link_world :: world where
  "link_world =
     \<lparr>fs = Map.empty(''cache/model.bin'' \<mapsto> File ''WEIGHTS-0123456'' 0x1A4,
                     ''cache/link'' \<mapsto> Symlink ''cache/model.bin'',
                     ''t'' \<mapsto> File ''abc'' 0x1A4,
                     ''l'' \<mapsto> Symlink ''t''),
      fds = [Some ''pkg/dist.tzst''], requests = [], heap = []\<rparr>"

definition fresh_encoder :: zstd_Encoder where
  "fresh_encoder = \<lparr>enc_level = 4, enc_err = None, enc_closed = False\<rparr>"

definition tb0 :: Tarball where
  "tb0 = \<lparr>tb_file = Some 0, tb_encoder = fresh_encoder, tb_writer = tar_NewWriter\<rparr>"

definition tzw0 :: TarZstWriter where
  "tzw0 = \<lparr>tzw_file = Some 0, tzw_zstWr = fresh_encoder, tzw_tarWr = tar_NewWriter\<rparr>"




text \<open>
  Two files to fingerprint, and a heap with two arrays that hold their names in the two
  orders.
\<close>

definition meta_world :: world where
  "meta_world =
     \<lparr>fs = Map.empty(''a.bin'' \<mapsto> File ''AAA'' 0x1A4, ''b.bin'' \<mapsto> File ''BB'' 0x1A4),
      fds = [], requests = [],
      heap = [[''b.bin'', ''a.bin''], [''a.bin'', ''b.bin'']]\<rparr>"






section \<open>Close: aggregation of the failures of the three layers\<close>

lemma errors_Join_two:
  "errors_Join [None, Some e] = Some (JoinError [e])"
  "errors_Join [Some d, Some e] = Some (JoinError [d, e])"
  by (simp_all add: errors_Join_def List.map_filter_simps)

lemma mentions_refl: "mentions e e"
  by (cases e) simp_all

text \<open>
  \<open>Tarball.Close\<close> runs the close of every layer whatever the earlier ones returned: the
  state it leaves is the one the three closes leave.
\<close>

lemma Tarball_Close_closes_all:
  "Tarball_Close tb w =
     (fst (Tarball_Close tb w),
      tb\<lparr>tb_writer := snd (tar_Close (tb_writer tb)), tb_encoder := snd (enc_Close (tb_encoder tb))\<rparr>,
      snd (file_Close (tb_file tb) w))"
  by (simp add: Tarball_Close_def Let_def split: prod.splits)


text \<open>The error of \<open>Tarball.Close\<close> mentions the failure of every layer that failed.\<close>

lemma Tarball_Close_mentions_writer:
  "fst (tar_Close (tb_writer tb)) = Some c \<Longrightarrow>
     \<exists>e. fst (Tarball_Close tb w) = Some e \<and> mentions c e"
  by (auto simp: Tarball_Close_def Let_def errors_Join_def List.map_filter_simps mentions_refl
      split: prod.splits option.splits)

lemma Tarball_Close_mentions_encoder:
  "fst (enc_Close (tb_encoder tb)) = Some c \<Longrightarrow>
     \<exists>e. fst (Tarball_Close tb w) = Some e \<and> mentions c e"
  by (auto simp: Tarball_Close_def Let_def errors_Join_def List.map_filter_simps mentions_refl
      split: prod.splits option.splits)

lemma Tarball_Close_mentions_file:
  "fst (file_Close (tb_file tb) w) = Some c \<Longrightarrow>
     \<exists>e. fst (Tarball_Close tb w) = Some e \<and> mentions c e"
  by (auto simp: Tarball_Close_def Let_def errors_Join_def List.map_filter_simps mentions_refl
      split: prod.splits option.splits)

text \<open>\<open>TarZstWriter.Close\<close> also closes every layer, and returns nil whatever they return.\<close>

lemma TarZstWriter_Close_result:
  "TarZstWriter_Close tzw w =
     (None,
      tzw\<lparr>tzw_tarWr := snd (tar_Close (tzw_tarWr tzw)), tzw_zstWr := snd (enc_Close (tzw_zstWr tzw))\<rparr>,
      snd (file_Close (tzw_file tzw) w))"
  by (simp add: TarZstWriter_Close_def Let_def split: prod.splits)

text \<open>
  C2 (Close attempts all three closes and returns an error aggregating every failure; it
  never returns success when a close failed). \<open>Tarball.Close\<close> does so (lemmas above).
  \<open>TarZstWriter.Close\<close> does not: on a writer whose encoder holds a write failure, the
  close of the encoder returns that failure, all three layers are closed, and the
  function returns nil.
\<close>

theorem TarZstWriter_Close_swallows_failure:
  "fst (enc_Close (tzw_zstWr broken_TarZstWriter))
     = Some (Fault ''write dist.tzst: no space left on device'')
   \<and> TarZstWriter_Close broken_TarZstWriter one_handle_world
     = (None,
        broken_TarZstWriter
          \<lparr>tzw_tarWr := tar_NewWriter\<lparr>tw_closed := True\<rparr>,
           tzw_zstWr := (tzw_zstWr broken_TarZstWriter)\<lparr>enc_closed := True\<rparr>\<rparr>,
        one_handle_world\<lparr>fds := [None]\<rparr>)"
  by (simp add: TarZstWriter_Close_def broken_TarZstWriter_def one_handle_world_def
      enc_Close_def tar_Close_def tar_Flush_def tar_NewWriter_def file_Close_def is_open_def)

section \<open>Creating an archive: when it fails, and what it leaves\<close>

lemma os_Create_Inr:
  "os_Create ev p w = Inr (fd, w1) \<Longrightarrow>
     fd = length (fds w) \<and> (\<exists>q. fds w1 = fds w @ [Some q])
     \<and> requests w1 = requests w \<and> heap w1 = heap w"
  by (auto simp: os_Create_def split: sum.splits option.splits node.splits)

lemma newTarball_spec:
  "case newTarball ev filename opts w of (res, err, w') \<Rightarrow>
     ((err \<noteq> None) = (isl (os_Create ev filename w) \<or> isl (zstd_NewWriter (default_opts opts))))
     \<and> ((res = None) = (err \<noteq> None))
     \<and> (\<not> isl (os_Create ev filename w) \<and> isl (zstd_NewWriter (default_opts opts))
          \<longrightarrow> fds w' = fds w @ [None])"
  by (auto simp: newTarball_def Let_def file_Close_def is_open_def
      split: sum.splits prod.splits dest!: os_Create_Inr)

lemma createTarZst_spec:
  "case createTarZst ev fn opts w of (res, err, w') \<Rightarrow>
     ((err \<noteq> None) = (isl (os_Create ev fn w) \<or> isl (zstd_NewWriter (default_opts opts))))
     \<and> ((res = None) = (err \<noteq> None))
     \<and> (\<not> isl (os_Create ev fn w) \<and> isl (zstd_NewWriter (default_opts opts))
          \<longrightarrow> fds w' = fds w @ [None])"
  by (auto simp: createTarZst_def Let_def file_Close_def is_open_def
      split: sum.splits prod.splits dest!: os_Create_Inr)

text \<open>
  C7. \<open>newTarball\<close> and \<open>createTarZst\<close> return an error exactly when \<open>os.Create\<close> fails or
  \<open>zstd.NewWriter\<close> fails on the options in force; they return a writer exactly when they
  return no error; and when the file was created and the encoder failed, the handle
  table afterwards is the old one with one more handle, closed.
\<close>

theorem archive_creation_fails_iff:
  "(case newTarball ev filename opts w of (res, err, w') \<Rightarrow>
     ((err \<noteq> None) = (isl (os_Create ev filename w) \<or> isl (zstd_NewWriter (default_opts opts))))
     \<and> ((res = None) = (err \<noteq> None))
     \<and> (\<not> isl (os_Create ev filename w) \<and> isl (zstd_NewWriter (default_opts opts))
          \<longrightarrow> fds w' = fds w @ [None]))
   \<and> (case createTarZst ev filename opts w of (res, err, w') \<Rightarrow>
     ((err \<noteq> None) = (isl (os_Create ev filename w) \<or> isl (zstd_NewWriter (default_opts opts))))
     \<and> ((res = None) = (err \<noteq> None))
     \<and> (\<not> isl (os_Create ev filename w) \<and> isl (zstd_NewWriter (default_opts opts))
          \<longrightarrow> fds w' = fds w @ [None]))"
  using newTarball_spec [where ev = ev and filename = filename and opts = opts and w = w]
    createTarZst_spec [where ev = ev and fn = filename and opts = opts and w = w]
  by simp

lemma resolve_missing: "f p = None \<Longrightarrow> resolve f (Suc n) p = Inr p"
  by simp

lemma os_Create_w0:
  "create_fault ev p = None \<Longrightarrow>
     os_Create ev p w0 = Inr (0, w0\<lparr>fs := Map.empty(p \<mapsto> File [] 0x1A4), fds := [Some p]\<rparr>)"
  by (simp add: os_Create_def w0_def max_links_def eval_nat_numeral)

lemma bad_level: "zstd_NewWriter (default_opts (Some [WithEncoderLevel 9])) = Inl ErrEncoderOption"
  by (simp add: zstd_NewWriter_def default_opts_def WithEncoderLevel_def)

theorem archive_creation_fails_iff_witness:
  "\<not> isl (os_Create ev0 ''pkg/dist.tzst'' w0)
   \<and> isl (zstd_NewWriter (default_opts (Some [WithEncoderLevel 9])))
   \<and> fst (newTarball ev0 ''pkg/dist.tzst'' (Some [WithEncoderLevel 9]) w0) = None
   \<and> fst (snd (newTarball ev0 ''pkg/dist.tzst'' (Some [WithEncoderLevel 9]) w0)) \<noteq> None
   \<and> fds (snd (snd (newTarball ev0 ''pkg/dist.tzst'' (Some [WithEncoderLevel 9]) w0))) = [None]
   \<and> fst (createTarZst ev0 ''pkg/dist.tzst'' (Some [WithEncoderLevel 9]) w0) = None
   \<and> fst (snd (createTarZst ev0 ''pkg/dist.tzst'' (Some [WithEncoderLevel 9]) w0)) \<noteq> None
   \<and> fds (snd (snd (createTarZst ev0 ''pkg/dist.tzst'' (Some [WithEncoderLevel 9]) w0))) = [None]"
proof -
  have c: "create_fault ev0 ''pkg/dist.tzst'' = None"
    by (simp add: ev0_def)
  have h1: "\<not> isl (os_Create ev0 ''pkg/dist.tzst'' w0)"
    by (simp add: os_Create_w0 [OF c])
  have h2: "isl (zstd_NewWriter (default_opts (Some [WithEncoderLevel 9])))"
    by (simp add: bad_level)
  have e: "fds w0 = []"
    by (simp add: w0_def)
  show ?thesis
    using archive_creation_fails_iff [where ev = ev0 and filename = "''pkg/dist.tzst''"
        and opts = "Some [WithEncoderLevel 9]" and w = w0]
      h1 h2 e
    by (simp split: prod.splits)
qed

section \<open>AppendFile on a symbolic link\<close>

lemmas tar_defs =
  tar_WriteHeader_def promoted_def tar_Flush_def tar_Copy_def add_data_def tar_NewWriter_def
  isHeaderOnlyType_def TypeRegA_def TypeReg_def TypeLink_def TypeSymlink_def TypeChar_def
  TypeBlock_def TypeDir_def TypeFifo_def

lemma symlink_bit_set:
  "(ModeSymlink OR ModePerm) AND ModeSymlink \<noteq> 0"
  "ModeSymlink \<noteq> 0"
  by (simp_all add: ModeSymlink_def ModePerm_def)

text \<open>
  For a source that is a link, the header carries the target read from the link and the
  size of the link (the length of the target), the type flag is left at its zero value,
  and the content reader is the file \<open>os.Open\<close> reached through the link.
\<close>

lemma Tarball_AppendFile_symlink:
  assumes "fs w src = Some (Symlink t)" and "os_Open w src = Inr r"
  shows "Tarball_AppendFile tb dest src w =
     (case Tarball_Append tb
             \<lparr>Typeflag = 0, Name = dest, Linkname = t, Size = int (length t),
              Mode = uint (ModeSymlink OR ModePerm)\<rparr> r of
        (Some err, tb') \<Rightarrow> (Some (Errorf ''failed to append file %q: %w'' [src] err), tb')
      | (None, tb') \<Rightarrow> (None, tb'))"
  using assms
  by (simp add: Tarball_AppendFile_def os_Lstat_def os_Readlink_def file_header_def
      symlink_bit_set)

lemma TarZstWriter_AppendFile_symlink:
  assumes "fs w src = Some (Symlink t)" and "os_Open w src = Inr r"
  shows "TarZstWriter_AppendFile tzw dest src w =
     (case TarZstWriter_Append tzw
             \<lparr>Typeflag = 0, Name = dest, Linkname = t, Size = int (length t),
              Mode = uint (ModeSymlink OR ModePerm)\<rparr> r of
        (Some err, tzw') \<Rightarrow> (Some (Errorf ''TarZstWriter.AppendFile: %w'' [] err), tzw')
      | (None, tzw') \<Rightarrow> (None, tzw'))"
  using assms
  by (simp add: TarZstWriter_AppendFile_def os_Lstat_def os_Readlink_def file_header_def
      symlink_bit_set)

text \<open>A link whose target is missing cannot be opened: nothing is appended.\<close>

lemma Tarball_AppendFile_dangling:
  assumes "os_Open w src = Inl e"
  shows "Tarball_AppendFile tb dest src w = (Some (Errorf ''failed to open %q: %w'' [src] e), tb)"
  using assms by (simp add: Tarball_AppendFile_def)

lemma link_open:
  "os_Open link_world ''cache/link'' = Inr \<lparr>rd_data = ''WEIGHTS-0123456'', rd_err = None\<rparr>"
  "os_Open link_world ''l'' = Inr \<lparr>rd_data = ''abc'', rd_err = None\<rparr>"
  by (simp_all add: os_Open_def link_world_def max_links_def eval_nat_numeral)

lemma link_node:
  "fs link_world ''cache/link'' = Some (Symlink ''cache/model.bin'')"
  "fs link_world ''l'' = Some (Symlink ''t'')"
  by (simp_all add: link_world_def)

lemma link_mode: "uint (ModeSymlink OR ModePerm) = 0x80001FF"
  by (simp add: ModeSymlink_def ModePerm_def)

text \<open>
  C1 (for a source that is a symbolic link, AppendFile appends an entry with the link
  target and zero-length content, reading nothing through the link). The code does
  otherwise. Appending the link \<open>cache/link\<close>, whose target \<open>cache/model.bin\<close> is a file of
  15 bytes, succeeds with one entry of type regular file, of size 15 (the length of the
  target name), whose content is the 15 bytes of the target file. Appending the link
  \<open>l\<close> to the three-byte file \<open>t\<close> fails with \<open>ErrWriteTooLong\<close> after one byte of \<open>t\<close>
  has been written. Both writers behave the same.
\<close>

theorem AppendFile_reads_through_symlink:
  "Tarball_AppendFile tb0 ''voice.onnx'' ''cache/link'' link_world
     = (None, tb0\<lparr>tb_writer := tar_NewWriter\<lparr>tw_entries :=
          [(\<lparr>Typeflag = TypeReg, Name = ''voice.onnx'', Linkname = ''cache/model.bin'',
             Size = 15, Mode = 0x80001FF\<rparr>, ''WEIGHTS-0123456'')]\<rparr>\<rparr>)
   \<and> TarZstWriter_AppendFile tzw0 ''voice.onnx'' ''cache/link'' link_world
     = (None, tzw0\<lparr>tzw_tarWr := tar_NewWriter\<lparr>tw_entries :=
          [(\<lparr>Typeflag = TypeReg, Name = ''voice.onnx'', Linkname = ''cache/model.bin'',
             Size = 15, Mode = 0x80001FF\<rparr>, ''WEIGHTS-0123456'')]\<rparr>\<rparr>)
   \<and> Tarball_AppendFile tb0 ''x'' ''l'' link_world
     = (Some (Errorf ''failed to append file %q: %w'' [''l'']
                (Errorf ''failed to copy data: %w'' [] ErrWriteTooLong)),
        tb0\<lparr>tb_writer := tar_NewWriter\<lparr>tw_entries :=
          [(\<lparr>Typeflag = TypeReg, Name = ''x'', Linkname = ''t'', Size = 1, Mode = 0x80001FF\<rparr>,
            ''a'')]\<rparr>\<rparr>)"
proof -
  have a: "Tarball_AppendFile tb0 ''voice.onnx'' ''cache/link'' link_world
     = (None, tb0\<lparr>tb_writer := tar_NewWriter\<lparr>tw_entries :=
          [(\<lparr>Typeflag = TypeReg, Name = ''voice.onnx'', Linkname = ''cache/model.bin'',
             Size = 15, Mode = 0x80001FF\<rparr>, ''WEIGHTS-0123456'')]\<rparr>\<rparr>)"
    by (simp add: Tarball_AppendFile_symlink [OF link_node(1) link_open(1)] link_mode
        Tarball_Append_def tar_defs tb0_def)
  have b: "TarZstWriter_AppendFile tzw0 ''voice.onnx'' ''cache/link'' link_world
     = (None, tzw0\<lparr>tzw_tarWr := tar_NewWriter\<lparr>tw_entries :=
          [(\<lparr>Typeflag = TypeReg, Name = ''voice.onnx'', Linkname = ''cache/model.bin'',
             Size = 15, Mode = 0x80001FF\<rparr>, ''WEIGHTS-0123456'')]\<rparr>\<rparr>)"
    by (simp add: TarZstWriter_AppendFile_symlink [OF link_node(1) link_open(1)] link_mode
        TarZstWriter_Append_def tar_defs tzw0_def)
  have c: "Tarball_AppendFile tb0 ''x'' ''l'' link_world
     = (Some (Errorf ''failed to append file %q: %w'' [''l'']
                (Errorf ''failed to copy data: %w'' [] ErrWriteTooLong)),
        tb0\<lparr>tb_writer := tar_NewWriter\<lparr>tw_entries :=
          [(\<lparr>Typeflag = TypeReg, Name = ''x'', Linkname = ''t'', Size = 1, Mode = 0x80001FF\<rparr>,
            ''a'')]\<rparr>\<rparr>)"
    by (simp add: Tarball_AppendFile_symlink [OF link_node(2) link_open(2)] link_mode
        Tarball_Append_def tar_defs tb0_def)
  from a b c show ?thesis by simp
qed

section \<open>The caching downloader: cache hits, failures, status codes\<close>

lemma resolve_end:
  "resolve f n p = Inr q \<Longrightarrow> f q \<noteq> Some (Symlink t)"
  by (induction f n p rule: resolve.induct) (auto split: option.splits node.splits)

lemma resolve_upd:
  "resolve f n p = Inr q \<Longrightarrow> (\<And>t. nd \<noteq> Symlink t) \<Longrightarrow> resolve (f(q \<mapsto> nd)) n p = Inr q"
proof (induction f n p rule: resolve.induct)
  case (1 f p)
  then show ?case by simp
next
  case (2 f n p)
  show ?case
  proof (cases "f p")
    case None
    with 2 show ?thesis by (cases nd) auto
  next
    case (Some a)
    show ?thesis
    proof (cases a)
      case (Symlink t)
      with Some 2 have r: "resolve f n t = Inr q" by simp
      have "f q \<noteq> Some (Symlink t)" using resolve_end [OF r] .
      with Some Symlink have "p \<noteq> q" by auto
      with 2 Some Symlink r show ?thesis by simp
    next
      case (File c perm)
      with Some 2 show ?thesis by (cases nd) auto
    next
      case (Dir perm sz)
      with Some 2 show ?thesis by (cases nd) auto
    qed
  qed
qed

lemma os_Create_char:
  assumes "os_Create ev p w = Inr (fd, w1)"
  shows "\<exists>q perm. resolve (fs w) max_links p = Inr q \<and> create_fault ev q = None
           \<and> (fs w q = None \<or> (\<exists>c. fs w q = Some (File c perm)))
           \<and> w1 = w\<lparr>fs := (fs w)(q \<mapsto> File [] perm), fds := fds w @ [Some q]\<rparr>
           \<and> fd = length (fds w)"
  using assms
  by (auto simp: os_Create_def split: sum.splits option.splits node.splits)

lemma os_Stat_miss:
  assumes "isl (os_Stat w p)" "resolve (fs w) max_links p = Inr q"
  shows "fs w q = None"
  using assms by (auto simp: os_Stat_def split: option.splits)


lemma download_miss:
  assumes miss: "isl (os_Stat w (cache_path r u))"
    and created: "os_Create ev (cache_path r u) w = Inr (fd, w1)"
  shows "\<exists>q. resolve (fs w) max_links (cache_path r u) = Inr q \<and> fs w q = None \<and>
     download ev r u w =
       (case http_Get ev u of
          TransportError err \<Rightarrow>
            (([], Some (Errorf ''failed to download %q: %w'' [u]
                        (Errorf ''failed to download %q: %w'' [u] err))),
             after_download w q u [])
        | Response st body \<Rightarrow>
            (case rd_err body of
               Some err \<Rightarrow>
                 (([], Some (Errorf ''failed to download %q: %w'' [u]
                             (Errorf ''failed to download %q: %w'' [u] err))),
                  after_download w q u (rd_data body))
             | None \<Rightarrow> ((cache_path r u, None), after_download w q u (rd_data body))))"
proof -
  from os_Create_char [OF created] obtain q perm where
    q: "resolve (fs w) max_links (cache_path r u) = Inr q"
    and w1: "w1 = w\<lparr>fs := (fs w)(q \<mapsto> File [] perm), fds := fds w @ [Some q]\<rparr>"
    and fd: "fd = length (fds w)"
    and old: "fs w q = None \<or> (\<exists>c. fs w q = Some (File c perm))"
    by blast
  have none: "fs w q = None" using os_Stat_miss [OF miss q] .
  with created q have w1': "w1 = w\<lparr>fs := (fs w)(q \<mapsto> File [] 0x1A4), fds := fds w @ [Some q]\<rparr>"
    by (auto simp: os_Create_def split: option.splits)
  have st: "os_Stat w (cache_path r u) = Inl ErrNotExist"
    using q none by (simp add: os_Stat_def)
  have "download ev r u w =
       (case http_Get ev u of
          TransportError err \<Rightarrow>
            (([], Some (Errorf ''failed to download %q: %w'' [u]
                        (Errorf ''failed to download %q: %w'' [u] err))),
             after_download w q u [])
        | Response st body \<Rightarrow>
            (case rd_err body of
               Some err \<Rightarrow>
                 (([], Some (Errorf ''failed to download %q: %w'' [u]
                             (Errorf ''failed to download %q: %w'' [u] err))),
                  after_download w q u (rd_data body))
             | None \<Rightarrow> ((cache_path r u, None), after_download w q u (rd_data body))))"
    by (simp add: download_def Let_def st created w1' fd download_deferred_def file_Close_def
        is_open_def file_Copy_def file_append_def after_download_def nth_append
        split: http_result.splits option.splits)
  with q none show ?thesis by blast
qed


lemma after_download_open:
  assumes "resolve (fs w) max_links p = Inr q"
  shows "os_Open (after_download w q u d) p = Inr \<lparr>rd_data = d, rd_err = None\<rparr>"
    and "os_Stat (after_download w q u d) p = Inr (info_of (File d 0x1A4))"
  using resolve_upd [OF assms, of "File d 0x1A4"]
  by (simp_all add: os_Open_def os_Stat_def after_download_def)

lemma download_hit:
  "\<not> isl (os_Stat w (cache_path r u)) \<Longrightarrow> download ev r u w = ((cache_path r u, None), w)"
  by (auto simp: download_def Let_def split: sum.splits)

lemma download_uncreated:
  assumes "isl (os_Stat w (cache_path r u))" "isl (os_Create ev (cache_path r u) w)"
  shows "snd (fst (download ev r u w)) \<noteq> None"
  using assms
  by (auto simp: download_def Let_def download_deferred_def file_Close_def file_Copy_def
      split: sum.splits http_result.splits option.splits prod.splits)

lemma download_again:
  assumes ok: "snd (fst (download ev r u w)) = None"
  shows "fst (fst (download ev r u w)) = cache_path r u
        \<and> download ev r u (snd (download ev r u w))
            = ((cache_path r u, None), snd (download ev r u w))"
  proof (cases "isl (os_Stat w (cache_path r u))")
    case False
    then show ?thesis by (simp add: download_hit)
  next
    case True
    show ?thesis
    proof (cases "os_Create ev (cache_path r u) w")
      case (Inl e)
      then have "isl (os_Create ev (cache_path r u) w)" by simp
      from download_uncreated [OF True this] ok show ?thesis by simp
    next
      case (Inr a)
      then obtain fd w1 where c: "os_Create ev (cache_path r u) w = Inr (fd, w1)"
        by (cases a) auto
      from download_miss [OF True c] obtain q where
        q: "resolve (fs w) max_links (cache_path r u) = Inr q"
        and d: "download ev r u w =
         (case http_Get ev u of
            TransportError err \<Rightarrow>
              (([], Some (Errorf ''failed to download %q: %w'' [u]
                          (Errorf ''failed to download %q: %w'' [u] err))),
               after_download w q u [])
          | Response st body \<Rightarrow>
              (case rd_err body of
                 Some err \<Rightarrow>
                   (([], Some (Errorf ''failed to download %q: %w'' [u]
                               (Errorf ''failed to download %q: %w'' [u] err))),
                    after_download w q u (rd_data body))
               | None \<Rightarrow> ((cache_path r u, None), after_download w q u (rd_data body))))"
        by blast
      from ok d have "\<exists>b. download ev r u w = ((cache_path r u, None), after_download w q u b)"
        by (auto split: http_result.splits option.splits)
      then obtain b where
        r: "download ev r u w = ((cache_path r u, None), after_download w q u b)"
        by blast
      have "\<not> isl (os_Stat (after_download w q u b) (cache_path r u))"
        by (simp add: after_download_open(2) [OF q])
      then show ?thesis by (simp add: r download_hit)
    qed
  qed

lemma stat_regular_file:
  assumes "fs w p = Some (File c perm)"
  shows "\<not> isl (os_Stat w p)"
  using assms by (simp add: os_Stat_def max_links_def eval_nat_numeral)

text \<open>
  A call that created the cache file leaves it behind whether it succeeded or not, and
  the next call takes it for the download: it returns the path and issues no request.
\<close>

lemma download_trusts_created_file:
  assumes miss: "isl (os_Stat w (cache_path r u))"
    and created: "os_Create ev (cache_path r u) w = Inr (fd, w1)"
  shows "download ev r u (snd (download ev r u w))
           = ((cache_path r u, None), snd (download ev r u w))"
proof -
  from download_miss [OF miss created] obtain q where
    q: "resolve (fs w) max_links (cache_path r u) = Inr q"
    and d: "download ev r u w =
       (case http_Get ev u of
          TransportError err \<Rightarrow>
            (([], Some (Errorf ''failed to download %q: %w'' [u]
                        (Errorf ''failed to download %q: %w'' [u] err))),
             after_download w q u [])
        | Response st body \<Rightarrow>
            (case rd_err body of
               Some err \<Rightarrow>
                 (([], Some (Errorf ''failed to download %q: %w'' [u]
                             (Errorf ''failed to download %q: %w'' [u] err))),
                  after_download w q u (rd_data body))
             | None \<Rightarrow> ((cache_path r u, None), after_download w q u (rd_data body))))"
    by blast
  have "\<exists>b. snd (download ev r u w) = after_download w q u b"
    unfolding d by (auto split: http_result.splits option.splits)
  then obtain b where "snd (download ev r u w) = after_download w q u b"
    by blast
  then show ?thesis
    by (simp add: download_hit after_download_open(2) [OF q])
qed

text \<open>
  C3. When \<open>os.Stat\<close> of the cache path succeeds, as it does when a regular file is
  there, \<open>download\<close> returns that path and no error and leaves the world as it is: no
  request is logged and no file is touched. And when a call returns no error, it has
  returned the cache path, and a second call with the same arguments in the world the
  first one left returns the same path and leaves that world, request log included,
  unchanged.
\<close>

theorem download_idempotent:
  "(\<not> isl (os_Stat w (cache_path r u)) \<longrightarrow> download ev r u w = ((cache_path r u, None), w))
   \<and> (fs w (cache_path r u) = Some (File c perm) \<longrightarrow>
        download ev r u w = ((cache_path r u, None), w))
   \<and> (snd (fst (download ev r u w)) = None \<longrightarrow>
        fst (fst (download ev r u w)) = cache_path r u
        \<and> download ev r u (snd (download ev r u w))
            = ((cache_path r u, None), snd (download ev r u w)))"
  using download_hit [of w r u ev] download_again [of ev r u w]
    stat_regular_file [of w "cache_path r u" c perm]
  by blast

text \<open>
  C8. On a cache miss, a transport error and a read error of the body both make
  \<open>download\<close> return an empty path and an error; and when the cache file had been
  created, it is still there afterwards, holding the bytes copied before the failure
  (none after a transport error).
\<close>

theorem download_failure_keeps_partial_file:
  assumes miss: "isl (os_Stat w (cache_path rootDir srcURL))"
  shows "(http_Get ev srcURL = TransportError e \<longrightarrow>
            fst (fst (download ev rootDir srcURL w)) = []
            \<and> snd (fst (download ev rootDir srcURL w)) \<noteq> None
            \<and> (\<not> isl (os_Create ev (cache_path rootDir srcURL) w) \<longrightarrow>
                 os_Open (snd (download ev rootDir srcURL w)) (cache_path rootDir srcURL)
                   = Inr \<lparr>rd_data = [], rd_err = None\<rparr>))
       \<and> (http_Get ev srcURL = Response st body \<and> rd_err body = Some e \<longrightarrow>
            fst (fst (download ev rootDir srcURL w)) = []
            \<and> snd (fst (download ev rootDir srcURL w)) \<noteq> None
            \<and> (\<not> isl (os_Create ev (cache_path rootDir srcURL) w) \<longrightarrow>
                 os_Open (snd (download ev rootDir srcURL w)) (cache_path rootDir srcURL)
                   = Inr \<lparr>rd_data = rd_data body, rd_err = None\<rparr>))"
proof (cases "os_Create ev (cache_path rootDir srcURL) w")
  case (Inl x)
  with miss show ?thesis
    by (auto simp: download_def Let_def download_deferred_def file_Close_def file_Copy_def
        split: sum.splits)
next
  case (Inr a)
  then obtain fd w1 where c: "os_Create ev (cache_path rootDir srcURL) w = Inr (fd, w1)"
    by (cases a) auto
  from download_miss [OF miss c] obtain q where
    q: "resolve (fs w) max_links (cache_path rootDir srcURL) = Inr q"
    and d: "download ev rootDir srcURL w =
       (case http_Get ev srcURL of
          TransportError err \<Rightarrow>
            (([], Some (Errorf ''failed to download %q: %w'' [srcURL]
                        (Errorf ''failed to download %q: %w'' [srcURL] err))),
             after_download w q srcURL [])
        | Response st body \<Rightarrow>
            (case rd_err body of
               Some err \<Rightarrow>
                 (([], Some (Errorf ''failed to download %q: %w'' [srcURL]
                             (Errorf ''failed to download %q: %w'' [srcURL] err))),
                  after_download w q srcURL (rd_data body))
             | None \<Rightarrow> ((cache_path rootDir srcURL, None), after_download w q srcURL (rd_data body))))"
    by blast
  show ?thesis
    by (auto simp: d after_download_open(1) [OF q])
qed

text \<open>
  C9. On a cache miss where the file is created, a response whose body is read to its
  end makes \<open>download\<close> return the cache path and no error, whatever the status code;
  the file holds the body; and a later call returns the path from the cache.
\<close>

theorem download_ignores_status:
  assumes miss: "isl (os_Stat w (cache_path rootDir srcURL))"
    and created: "\<not> isl (os_Create ev (cache_path rootDir srcURL) w)"
    and resp: "http_Get ev srcURL = Response status body"
    and whole: "rd_err body = None"
  shows "fst (download ev rootDir srcURL w) = (cache_path rootDir srcURL, None)
       \<and> os_Open (snd (download ev rootDir srcURL w)) (cache_path rootDir srcURL)
           = Inr \<lparr>rd_data = rd_data body, rd_err = None\<rparr>
       \<and> download ev rootDir srcURL (snd (download ev rootDir srcURL w))
           = ((cache_path rootDir srcURL, None), snd (download ev rootDir srcURL w))"
proof -
  from created obtain fd w1 where c: "os_Create ev (cache_path rootDir srcURL) w = Inr (fd, w1)"
    by (cases "os_Create ev (cache_path rootDir srcURL) w") auto
  from download_miss [OF miss c] resp whole obtain q where
    q: "resolve (fs w) max_links (cache_path rootDir srcURL) = Inr q"
    and d: "download ev rootDir srcURL w =
              ((cache_path rootDir srcURL, None), after_download w q srcURL (rd_data body))"
    by auto
  have "snd (fst (download ev rootDir srcURL w)) = None"
    by (simp add: d)
  from download_again [OF this] show ?thesis
    by (simp add: d after_download_open(1) [OF q])
qed

section \<open>The downloader on concrete worlds\<close>

lemma cp1: "cache_path ''r'' ''http://h/big.onnx'' = ''r/piper-gen.cache/http%3A%2F%2Fh%2Fbig.onnx''"
  by code_simp

lemma cp2: "cache_path ''r'' ''http://h/missing.onnx'' = ''r/piper-gen.cache/http%3A%2F%2Fh%2Fmissing.onnx''"
  by code_simp

lemma cp3: "cache_path ''r'' ''http://nowhere/x.json'' = ''r/piper-gen.cache/http%3A%2F%2Fnowhere%2Fx.json''"
  by code_simp

lemma stat_w0: "os_Stat w0 p = Inl ErrNotExist"
  by (simp add: os_Stat_def w0_def max_links_def eval_nat_numeral)

lemma download_w0:
  assumes "create_fault ev (cache_path r u) = None"
  shows "download ev r u w0 =
       (case http_Get ev u of
          TransportError err \<Rightarrow>
            (([], Some (Errorf ''failed to download %q: %w'' [u]
                        (Errorf ''failed to download %q: %w'' [u] err))),
             after_download w0 (cache_path r u) u [])
        | Response st body \<Rightarrow>
            (case rd_err body of
               Some err \<Rightarrow>
                 (([], Some (Errorf ''failed to download %q: %w'' [u]
                             (Errorf ''failed to download %q: %w'' [u] err))),
                  after_download w0 (cache_path r u) u (rd_data body))
             | None \<Rightarrow> ((cache_path r u, None), after_download w0 (cache_path r u) u (rd_data body))))"
proof -
  have m: "isl (os_Stat w0 (cache_path r u))" by (simp add: stat_w0)
  have r: "resolve (fs w0) max_links (cache_path r u) = Inr (cache_path r u)"
    by (simp add: w0_def max_links_def eval_nat_numeral)
  from download_miss [OF m os_Create_w0 [OF assms]] r show ?thesis by auto
qed


lemma create_ok:
  "create_fault ev0 (cache_path ''r'' ''http://h/big.onnx'') = None"
  "create_fault ev0 (cache_path ''r'' ''http://h/missing.onnx'') = None"
  "create_fault ev0 (cache_path ''r'' ''http://nowhere/x.json'') = None"
  by (simp_all add: cp1 cp2 cp3 ev0_def)

lemma get_ev0:
  "http_Get ev0 ''http://h/big.onnx''
     = Response 200 \<lparr>rd_data = ''ONN'', rd_err = Some (Fault ''unexpected EOF'')\<rparr>"
  "http_Get ev0 ''http://h/missing.onnx'' = Response 404 \<lparr>rd_data = ''Not Found'', rd_err = None\<rparr>"
  "http_Get ev0 ''http://nowhere/x.json'' = TransportError (Fault ''no such host'')"
  by (simp_all add: ev0_def)

theorem download_idempotent_witness:
  "snd (fst (download ev0 ''r'' ''http://h/missing.onnx'' w0)) = None
   \<and> \<not> isl (os_Stat (snd (download ev0 ''r'' ''http://h/missing.onnx'' w0))
               (cache_path ''r'' ''http://h/missing.onnx''))
   \<and> fst (fst (download ev0 ''r'' ''http://h/missing.onnx'' w0))
       = ''r/piper-gen.cache/http%3A%2F%2Fh%2Fmissing.onnx''
   \<and> fst (download ev0 ''r'' ''http://h/missing.onnx''
             (snd (download ev0 ''r'' ''http://h/missing.onnx'' w0)))
       = (''r/piper-gen.cache/http%3A%2F%2Fh%2Fmissing.onnx'', None)
   \<and> requests (snd (download ev0 ''r'' ''http://h/missing.onnx''
                     (snd (download ev0 ''r'' ''http://h/missing.onnx'' w0))))
       = [''http://h/missing.onnx'']"
proof -
  let ?u = "''http://h/missing.onnx''"
  let ?w = "snd (download ev0 ''r'' ?u w0)"
  have d: "download ev0 ''r'' ?u w0
             = ((cache_path ''r'' ?u, None), after_download w0 (cache_path ''r'' ?u) ?u ''Not Found'')"
    by (simp add: download_w0 [OF create_ok(2)] get_ev0)
  have h1: "snd (fst (download ev0 ''r'' ?u w0)) = None"
    by (simp add: d)
  have r: "resolve (fs w0) max_links (cache_path ''r'' ?u) = Inr (cache_path ''r'' ?u)"
    by (simp add: w0_def max_links_def eval_nat_numeral)
  have h2: "\<not> isl (os_Stat ?w (cache_path ''r'' ?u))"
    by (simp add: d after_download_open(2) [OF r])
  have q: "requests ?w = [?u]"
    unfolding d by (simp add: after_download_def w0_def)
  from download_idempotent [where w = w0 and r = "''r''" and u = ?u and ev = ev0]
    download_idempotent [where w = ?w and r = "''r''" and u = ?u and ev = ev0]
    h1 h2 q
  show ?thesis by (simp add: cp2)
qed

theorem download_failure_keeps_partial_file_witness:
  "isl (os_Stat w0 (cache_path ''r'' ''http://h/big.onnx''))
   \<and> \<not> isl (os_Create ev0 (cache_path ''r'' ''http://h/big.onnx'') w0)
   \<and> fst (fst (download ev0 ''r'' ''http://h/big.onnx'' w0)) = []
   \<and> snd (fst (download ev0 ''r'' ''http://h/big.onnx'' w0)) \<noteq> None
   \<and> os_Open (snd (download ev0 ''r'' ''http://h/big.onnx'' w0))
         ''r/piper-gen.cache/http%3A%2F%2Fh%2Fbig.onnx''
       = Inr \<lparr>rd_data = ''ONN'', rd_err = None\<rparr>
   \<and> isl (os_Stat w0 (cache_path ''r'' ''http://nowhere/x.json''))
   \<and> \<not> isl (os_Create ev0 (cache_path ''r'' ''http://nowhere/x.json'') w0)
   \<and> fst (fst (download ev0 ''r'' ''http://nowhere/x.json'' w0)) = []
   \<and> snd (fst (download ev0 ''r'' ''http://nowhere/x.json'' w0)) \<noteq> None
   \<and> os_Open (snd (download ev0 ''r'' ''http://nowhere/x.json'' w0))
         ''r/piper-gen.cache/http%3A%2F%2Fnowhere%2Fx.json''
       = Inr \<lparr>rd_data = [], rd_err = None\<rparr>"
proof -
  have m1: "isl (os_Stat w0 (cache_path ''r'' ''http://h/big.onnx''))"
    and m2: "isl (os_Stat w0 (cache_path ''r'' ''http://nowhere/x.json''))"
    by (simp_all add: stat_w0)
  have c1: "\<not> isl (os_Create ev0 (cache_path ''r'' ''http://h/big.onnx'') w0)"
    and c2: "\<not> isl (os_Create ev0 (cache_path ''r'' ''http://nowhere/x.json'') w0)"
    by (simp_all add: os_Create_w0 create_ok)
  from download_failure_keeps_partial_file [OF m1, where ev = ev0
      and e = "Fault ''unexpected EOF''" and st = 200
      and body = "\<lparr>rd_data = ''ONN'', rd_err = Some (Fault ''unexpected EOF'')\<rparr>"]
    download_failure_keeps_partial_file [OF m2, where ev = ev0
      and e = "Fault ''no such host''"]
    m1 m2 c1 c2
  show ?thesis by (simp add: get_ev0 cp1 cp3)
qed

theorem download_ignores_status_witness:
  "isl (os_Stat w0 (cache_path ''r'' ''http://h/missing.onnx''))
   \<and> \<not> isl (os_Create ev0 (cache_path ''r'' ''http://h/missing.onnx'') w0)
   \<and> http_Get ev0 ''http://h/missing.onnx'' = Response 404 \<lparr>rd_data = ''Not Found'', rd_err = None\<rparr>
   \<and> fst (download ev0 ''r'' ''http://h/missing.onnx'' w0)
       = (''r/piper-gen.cache/http%3A%2F%2Fh%2Fmissing.onnx'', None)
   \<and> os_Open (snd (download ev0 ''r'' ''http://h/missing.onnx'' w0))
         ''r/piper-gen.cache/http%3A%2F%2Fh%2Fmissing.onnx''
       = Inr \<lparr>rd_data = ''Not Found'', rd_err = None\<rparr>"
proof -
  have m: "isl (os_Stat w0 (cache_path ''r'' ''http://h/missing.onnx''))"
    by (simp add: stat_w0)
  have c: "\<not> isl (os_Create ev0 (cache_path ''r'' ''http://h/missing.onnx'') w0)"
    by (simp add: os_Create_w0 create_ok)
  from download_ignores_status [OF m c get_ev0(2)] m c get_ev0(2)
  show ?thesis by (simp add: cp2)
qed

section \<open>Installing a voice: unexpected files\<close>

lemma voice_basename_unexpected:
  "unexpected_file u \<Longrightarrow>
     voice_basename u
       = Inl (ErrorfPlain ''encountered unexpected file extension %q'' [filepath_Ext (filepath_Base u)])"
  by (simp add: voice_basename_def unexpected_file_def Let_def)

lemma voice_basename_expected:
  "\<not> unexpected_file u \<Longrightarrow> \<not> isl (voice_basename u)"
  by (auto simp: voice_basename_def unexpected_file_def Let_def)

text \<open>The loop ends at an unexpected address: what follows it plays no part.\<close>

lemma installVoice_loop_stops:
  assumes "unexpected_file u"
  shows "installVoice_loop ev rootDir (pre @ u # rest) tb w m =
     (case installVoice_loop ev rootDir pre tb w m of
        (Some err, s) \<Rightarrow> (Some err, s)
      | (None, s) \<Rightarrow>
          (Some (ErrorfPlain ''encountered unexpected file extension %q''
                   [filepath_Ext (filepath_Base u)]), s))"
proof (induction pre arbitrary: tb w m)
  case Nil
  show ?case by (simp add: voice_basename_unexpected [OF assms])
next
  case (Cons x pre)
  show ?case
    by (simp add: Cons.IH split: sum.splits prod.splits option.splits)
qed

lemma installVoice_loop_fails:
  assumes "u \<in> set urls" "unexpected_file u"
  shows "fst (installVoice_loop ev rootDir urls tb w m) \<noteq> None"
proof -
  from assms(1) obtain pre rest where "urls = pre @ u # rest"
    by (auto simp: in_set_conv_decomp)
  then show ?thesis
    by (simp add: installVoice_loop_stops [OF assms(2)] split: prod.splits option.splits)
qed

lemma installVoice_fails:
  assumes "u \<in> set urls" "unexpected_file u"
  shows "fst (installVoice ev rootDir name version urls w) \<noteq> None"
proof -
  obtain tbo err w1 where
    n: "newTarball ev (filepath_Join [filepath_Join [rootDir, ''piper-voice-'' @ name], ArchiveFilename])
          None w = (tbo, err, w1)"
    by (metis prod_cases3)
  show ?thesis
  proof (cases err)
    case (Some e)
    with n show ?thesis by (simp add: installVoice_def Let_def split: option.splits)
  next
    case None
    show ?thesis
    proof (cases tbo)
      case None
      with n \<open>err = None\<close> show ?thesis by (simp add: installVoice_def Let_def)
    next
      case (Some tb)
      obtain r tb' w2 m where
        l: "installVoice_loop ev rootDir urls tb w1 [] = (r, tb', w2, m)"
        by (metis prod_cases4)
      with installVoice_loop_fails [OF assms, of ev rootDir tb w1 "[]"]
      obtain e where "r = Some e" by auto
      with n l Some \<open>err = None\<close> show ?thesis by (simp add: installVoice_def Let_def)
    qed
  qed
qed


text \<open>
  C6. For an address \<open>u\<close> with an unexpected base name and extension: \<open>installVoice\<close> on
  a list that contains \<open>u\<close> returns an error; and the loop over the addresses ends at
  \<open>u\<close> with the error of the default branch (unless an earlier address has already
  failed), leaving the archive and the world as the addresses before \<open>u\<close> left them: \<open>u\<close>
  is neither downloaded nor appended, and nothing after it is looked at.
\<close>

theorem installVoice_rejects_unexpected_file:
  assumes "unexpected_file u"
  shows "(u \<in> set urls \<longrightarrow> fst (installVoice ev rootDir name version urls w) \<noteq> None)
       \<and> installVoice_loop ev rootDir (pre @ u # rest) tb w m =
           (case installVoice_loop ev rootDir pre tb w m of
              (Some err, s) \<Rightarrow> (Some err, s)
            | (None, s) \<Rightarrow>
                (Some (ErrorfPlain ''encountered unexpected file extension %q''
                         [filepath_Ext (filepath_Base u)]), s))"
  using installVoice_fails [OF _ assms] installVoice_loop_stops [OF assms] by blast

lemma readme_unexpected: "unexpected_file ''http://h/README.txt''"
  by code_simp

lemma pre_ok:
  "fst (installVoice_loop ev0 ''r'' [''http://h/missing.onnx''] tb0 w0 []) = None"
  by code_simp

lemma pre_requests:
  "requests (fst (snd (snd (installVoice_loop ev0 ''r'' [''http://h/missing.onnx''] tb0 w0 []))))
     = [''http://h/missing.onnx'']"
  by code_simp

lemma pre_entries:
  "map (\<lambda>e. (Name (fst e), snd e))
     (tw_entries (tb_writer (fst (snd (installVoice_loop ev0 ''r'' [''http://h/missing.onnx''] tb0 w0 [])))))
     = [(''voice.onnx'', ''Not Found'')]"
  by code_simp


lemma readme_ext: "filepath_Ext (filepath_Base ''http://h/README.txt'') = ''.txt''"
  by code_simp

theorem installVoice_rejects_unexpected_file_witness:
  "unexpected_file ''http://h/README.txt''
   \<and> fst (installVoice ev0 ''r'' ''amy'' ''1.0.0''
            [''http://h/missing.onnx'', ''http://h/README.txt'', ''http://h/big.onnx''] w0) \<noteq> None
   \<and> fst (installVoice_loop ev0 ''r''
            [''http://h/missing.onnx'', ''http://h/README.txt'', ''http://h/big.onnx''] tb0 w0 [])
       = Some (ErrorfPlain ''encountered unexpected file extension %q'' [''.txt''])
   \<and> requests (fst (snd (snd (installVoice_loop ev0 ''r''
            [''http://h/missing.onnx'', ''http://h/README.txt'', ''http://h/big.onnx''] tb0 w0 []))))
       = [''http://h/missing.onnx'']
   \<and> map (\<lambda>e. (Name (fst e), snd e))
         (tw_entries (tb_writer (fst (snd (installVoice_loop ev0 ''r''
            [''http://h/missing.onnx'', ''http://h/README.txt'', ''http://h/big.onnx''] tb0 w0 [])))))
       = [(''voice.onnx'', ''Not Found'')]"
proof -
  let ?urls = "[''http://h/missing.onnx'', ''http://h/README.txt'', ''http://h/big.onnx'']"
  note t = installVoice_rejects_unexpected_file [OF readme_unexpected,
      where urls = ?urls and ev = ev0 and rootDir = "''r''" and name = "''amy''"
        and version = "''1.0.0''" and w = w0 and pre = "[''http://h/missing.onnx'']"
        and rest = "[''http://h/big.onnx'']" and tb = tb0 and m = "[]"]
  obtain s where p: "installVoice_loop ev0 ''r'' [''http://h/missing.onnx''] tb0 w0 [] = (None, s)"
    using pre_ok by (cases "installVoice_loop ev0 ''r'' [''http://h/missing.onnx''] tb0 w0 []") auto
  have "''http://h/README.txt'' \<in> set ?urls" by simp
  with t have a: "fst (installVoice ev0 ''r'' ''amy'' ''1.0.0'' ?urls w0) \<noteq> None"
    by blast
  from t have "installVoice_loop ev0 ''r'' ([''http://h/missing.onnx''] @ ''http://h/README.txt'' # [''http://h/big.onnx'']) tb0 w0 []
      = (Some (ErrorfPlain ''encountered unexpected file extension %q'' [''.txt'']), s)"
    by (simp only: p prod.case option.case readme_ext)
  then have b: "installVoice_loop ev0 ''r'' ?urls tb0 w0 []
      = (Some (ErrorfPlain ''encountered unexpected file extension %q'' [''.txt'']), s)"
    by (simp only: append.simps)
  from pre_requests pre_entries have c:
    "requests (fst (snd s)) = [''http://h/missing.onnx'']"
    "map (\<lambda>e. (Name (fst e), snd e)) (tw_entries (tb_writer (fst s))) = [(''voice.onnx'', ''Not Found'')]"
    by (simp_all only: p fst_conv snd_conv)
  from readme_unexpected a c show ?thesis
    by (simp only: b fst_conv snd_conv simp_thms)
qed

section \<open>Repackaging: what is skipped and what is written\<close>

































section \<open>Fingerprint: order of the names, and the caller's slice\<close>

lemma sort_mset_eq:
  fixes xs ys :: "string list"
  assumes "mset xs = mset ys"
  shows "sort xs = sort ys"
proof -
  have "mset (sort ys) = mset xs" using assms by simp
  moreover have "sorted (sort ys)" by simp
  ultimately show ?thesis by (rule properties_for_sort)
qed

lemma os_Open_fs:
  assumes "fs w' = fs w"
  shows "os_Open w' p = os_Open w p"
  unfolding os_Open_def assms by (rule refl)

lemma hashFile_fs:
  assumes "fs w' = fs w"
  shows "hashFile h p w' = hashFile h p w"
  by (simp add: hashFile_def os_Open_fs [OF assms])

lemma hash_files_fs:
  assumes "fs w' = fs w"
  shows "hash_files w' names h = hash_files w names h"
  by (induction names arbitrary: h)
     (simp_all add: hashFile_fs [OF assms] split: prod.splits option.splits)

lemma hash_files_stream:
  "hash_files w names h = Inr h' \<Longrightarrow> h' = h @ concat (map (file_bytes w) names)"
proof (induction names arbitrary: h)
  case Nil
  then show ?case by simp
next
  case (Cons p names)
  obtain r h1 where f: "hashFile h p w = (r, h1)" by (cases "hashFile h p w")
  with Cons.prems have r: "r = None" and rest: "hash_files w names h1 = Inr h'"
    by (auto split: option.splits)
  from f r have e1: "h1 = h @ file_bytes w p"
    by (auto simp: hashFile_def file_bytes_def split: sum.splits)
  from Cons.IH [OF rest] have e2: "h' = h1 @ concat (map (file_bytes w) names)" .
  show ?case
    by (simp only: e2 e1 list.map concat.simps append_assoc)
qed


lemma copy_heap:
  "sort_Strings (fst (append_nil h xs)) (snd (append_nil h xs))
     = (if xs = [] then h else h @ [sort xs])"
  by (simp add: append_nil_def sort_Strings_def)

lemma copy_elems:
  "slice_elems (if xs = [] then h else h @ [sort xs]) (snd (append_nil h xs)) = sort xs"
  by (simp add: append_nil_def slice_elems_def)


lemma installMeta_sorted:
  "installMeta ev dir version s w =
     (case hash_files w (sort (slice_elems (heap w) s)) [] of
        Inl (filename, err) \<Rightarrow>
          (Some (Errorf ''failed to hash file %q: %w'' [filename] err),
           sorted_copy_world w (slice_elems (heap w) s))
      | Inr h \<Rightarrow>
          (case json_Marshal ev \<lparr>Version = version, Hash = xxh3_128 ev h\<rparr> of
             Inl err \<Rightarrow>
               (Some (Errorf ''failed to marshal metadata: %w'' [] err),
                sorted_copy_world w (slice_elems (heap w) s))
           | Inr src \<Rightarrow>
               (case os_WriteFile ev (filepath_Join [dir, MetadataFilename]) src
                       (sorted_copy_world w (slice_elems (heap w) s)) of
                  (Some err, w2) \<Rightarrow> (Some (Errorf ''failed to write metadata: %w'' [] err), w2)
                | (None, w2) \<Rightarrow> (None, w2))))"
proof -
  let ?xs = "slice_elems (heap w) s"
  have a: "w\<lparr>heap := sort_Strings (fst (append_nil (heap w) ?xs)) (snd (append_nil (heap w) ?xs))\<rparr>
             = sorted_copy_world w ?xs"
    by (simp add: sorted_copy_world_def copy_heap)
  have b: "slice_elems (heap (sorted_copy_world w ?xs)) (snd (append_nil (heap w) ?xs)) = sort ?xs"
    by (simp add: sorted_copy_world_def copy_elems)
  have c: "hash_files (sorted_copy_world w ?xs) (sort ?xs) [] = hash_files w (sort ?xs) []"
    by (rule hash_files_fs) (simp add: sorted_copy_world_def)
  have "installMeta ev dir version s w =
     (case hash_files (sorted_copy_world w ?xs)
             (slice_elems (heap (sorted_copy_world w ?xs)) (snd (append_nil (heap w) ?xs))) [] of
        Inl (filename, err) \<Rightarrow>
          (Some (Errorf ''failed to hash file %q: %w'' [filename] err), sorted_copy_world w ?xs)
      | Inr h \<Rightarrow>
          (case json_Marshal ev \<lparr>Version = version, Hash = xxh3_128 ev h\<rparr> of
             Inl err \<Rightarrow>
               (Some (Errorf ''failed to marshal metadata: %w'' [] err), sorted_copy_world w ?xs)
           | Inr src \<Rightarrow>
               (case os_WriteFile ev (filepath_Join [dir, MetadataFilename]) src
                       (sorted_copy_world w ?xs) of
                  (Some err, w2) \<Rightarrow> (Some (Errorf ''failed to write metadata: %w'' [] err), w2)
                | (None, w2) \<Rightarrow> (None, w2))))"
    unfolding installMeta_def Let_def split_beta a [symmetric] by (rule refl)
  then show ?thesis by (simp only: b c)
qed


lemma os_WriteFile_heap: "heap (snd (os_WriteFile ev p d w)) = heap w"
  by (auto simp: os_WriteFile_def file_Copy_def file_Close_def file_append_def
      split: sum.splits prod.splits option.splits node.splits if_splits
      dest!: os_Create_char)

lemma os_WriteFile_content:
  assumes "os_WriteFile ev p d w = (None, w')"
  shows "os_Open w' p = Inr \<lparr>rd_data = d, rd_err = None\<rparr>"
proof (cases "os_Create ev p w")
  case (Inl e)
  with assms show ?thesis by (simp add: os_WriteFile_def)
next
  case (Inr a)
  then obtain fd w1 where c: "os_Create ev p w = Inr (fd, w1)" by (cases a) auto
  from os_Create_char [OF c] obtain q perm where
    q: "resolve (fs w) max_links p = Inr q"
    and w1: "w1 = w\<lparr>fs := (fs w)(q \<mapsto> File [] perm), fds := fds w @ [Some q]\<rparr>"
    and fd: "fd = length (fds w)"
    by blast
  from assms c have "fs w' = (fs w)(q \<mapsto> File d perm)"
    by (auto simp: os_WriteFile_def w1 fd file_Copy_def is_open_def file_append_def file_Close_def
        split: prod.splits if_splits)
  with resolve_upd [OF q, of "File d perm"] show ?thesis
    by (simp add: os_Open_def)
qed


lemma sorted_copy_world_perm:
  assumes "mset xs = mset ys"
  shows "sorted_copy_world w xs = sorted_copy_world w ys"
proof -
  from assms have "xs = [] \<longleftrightarrow> ys = []"
    by (metis mset_zero_iff)
  with sort_mset_eq [OF assms] show ?thesis
    by (simp add: sorted_copy_world_def)
qed

lemma os_WriteFile_heap':
  "os_WriteFile ev p d w = (r, w2) \<Longrightarrow> heap w2 = heap w"
  using os_WriteFile_heap [of ev p d w] by simp

lemma installMeta_heap:
  "heap (snd (installMeta ev dir version s w)) = heap (sorted_copy_world w (slice_elems (heap w) s))"
  by (auto simp: installMeta_sorted split: sum.splits prod.splits option.splits
      dest: os_WriteFile_heap')

lemma installMeta_success:
  assumes "fst (installMeta ev dir version s w) = None"
  shows "\<exists>src. json_Marshal ev
                 \<lparr>Version = version,
                  Hash = xxh3_128 ev (concat (map (file_bytes w) (sort (slice_elems (heap w) s))))\<rparr>
               = Inr src
             \<and> os_Open (snd (installMeta ev dir version s w)) (filepath_Join [dir, MetadataFilename])
                 = Inr \<lparr>rd_data = src, rd_err = None\<rparr>"
proof -
  let ?xs = "slice_elems (heap w) s"
  from assms obtain h where h: "hash_files w (sort ?xs) [] = Inr h"
    by (auto simp: installMeta_sorted split: sum.splits prod.splits)
  from hash_files_stream [OF h] have hs: "h = concat (map (file_bytes w) (sort ?xs))" by simp
  from assms h obtain src where m: "json_Marshal ev \<lparr>Version = version, Hash = xxh3_128 ev h\<rparr> = Inr src"
    by (auto simp: installMeta_sorted split: sum.splits prod.splits)
  obtain r w2 where wf: "os_WriteFile ev (filepath_Join [dir, MetadataFilename]) src
                          (sorted_copy_world w ?xs) = (r, w2)"
    by (cases "os_WriteFile ev (filepath_Join [dir, MetadataFilename]) src (sorted_copy_world w ?xs)")
  from assms h m wf have r: "r = None" and i: "installMeta ev dir version s w = (None, w2)"
    by (auto simp: installMeta_sorted split: option.splits)
  from os_WriteFile_content [OF wf [unfolded r]] m show ?thesis
    by (simp add: i hs)
qed

text \<open>
  C4. When two slices hold the same names in any two orders, \<open>installMeta\<close> on the one
  and on the other return the same error and leave the same world: the names are
  sorted first, and the sorted lists are equal. When \<open>installMeta\<close> succeeds, the
  metadata file holds the serialisation of the version with the digest of the bytes of
  all the files, concatenated in the sorted order of their names.
\<close>

theorem fingerprint_order_independent:
  assumes "mset (slice_elems (heap w) s1) = mset (slice_elems (heap w) s2)"
  shows "installMeta ev dir version s1 w = installMeta ev dir version s2 w
       \<and> sort (slice_elems (heap w) s1) = sort (slice_elems (heap w) s2)
       \<and> (fst (installMeta ev dir version s1 w) = None \<longrightarrow>
            (\<exists>src. json_Marshal ev
                     \<lparr>Version = version,
                      Hash = xxh3_128 ev
                               (concat (map (file_bytes w) (sort (slice_elems (heap w) s1))))\<rparr>
                   = Inr src
                 \<and> os_Open (snd (installMeta ev dir version s1 w))
                       (filepath_Join [dir, MetadataFilename])
                     = Inr \<lparr>rd_data = src, rd_err = None\<rparr>))"
proof -
  have a: "sort (slice_elems (heap w) s1) = sort (slice_elems (heap w) s2)"
    by (rule sort_mset_eq [OF assms])
  have b: "sorted_copy_world w (slice_elems (heap w) s1) = sorted_copy_world w (slice_elems (heap w) s2)"
    by (rule sorted_copy_world_perm [OF assms])
  have "installMeta ev dir version s1 w = installMeta ev dir version s2 w"
    by (simp only: installMeta_sorted a b)
  with a installMeta_success [of ev dir version s1 w] show ?thesis by blast
qed

text \<open>
  C10. \<open>installMeta\<close> leaves every array that was on the heap before the call as it
  was (the sorted copy is a new array), so the caller's slice reads the same names in the
  same order after the call as before.
\<close>

theorem installMeta_keeps_callers_slice:
  "take (length (heap w)) (heap (snd (installMeta ev dir version s w))) = heap w
   \<and> (valid_slice (heap w) s \<longrightarrow>
        slice_elems (heap (snd (installMeta ev dir version s w))) s = slice_elems (heap w) s)"
  by (auto simp: installMeta_heap sorted_copy_world_def valid_slice_def slice_elems_def nth_append
      split: slice.splits)


lemma meta_elems:
  "slice_elems (heap meta_world) (Slice 0 0 2) = [''b.bin'', ''a.bin'']"
  "slice_elems (heap meta_world) (Slice 1 0 2) = [''a.bin'', ''b.bin'']"
  by (simp_all add: meta_world_def slice_elems_def)

lemma meta_run:
  "fst (installMeta ev0 ''pkg'' ''v1'' (Slice 0 0 2) meta_world) = None"
  by code_simp

lemma meta_heap:
  "heap (snd (installMeta ev0 ''pkg'' ''v1'' (Slice 0 0 2) meta_world))
     = [[''b.bin'', ''a.bin''], [''a.bin'', ''b.bin''], [''a.bin'', ''b.bin'']]"
  by code_simp

lemma meta_stream:
  "concat (map (file_bytes meta_world) (sort [''b.bin'', ''a.bin''])) = ''AAABB''"
  by code_simp

lemma meta_path: "filepath_Join [''pkg'', MetadataFilename] = ''pkg/dist.json''"
  by code_simp

lemma meta_marshal:
  "json_Marshal ev0 \<lparr>Version = ''v1'', Hash = xxh3_128 ev0 ''AAABB''\<rparr> = Inr ''v1#''"
  by code_simp

theorem fingerprint_order_independent_witness:
  "mset (slice_elems (heap meta_world) (Slice 0 0 2)) = mset (slice_elems (heap meta_world) (Slice 1 0 2))
   \<and> slice_elems (heap meta_world) (Slice 0 0 2) \<noteq> slice_elems (heap meta_world) (Slice 1 0 2)
   \<and> installMeta ev0 ''pkg'' ''v1'' (Slice 0 0 2) meta_world
       = installMeta ev0 ''pkg'' ''v1'' (Slice 1 0 2) meta_world
   \<and> fst (installMeta ev0 ''pkg'' ''v1'' (Slice 0 0 2) meta_world) = None
   \<and> os_Open (snd (installMeta ev0 ''pkg'' ''v1'' (Slice 0 0 2) meta_world)) ''pkg/dist.json''
       = Inr \<lparr>rd_data = ''v1#'', rd_err = None\<rparr>"
proof -
  have m: "mset (slice_elems (heap meta_world) (Slice 0 0 2))
             = mset (slice_elems (heap meta_world) (Slice 1 0 2))"
    unfolding meta_elems by (simp add: add_mset_commute)
  have d: "slice_elems (heap meta_world) (Slice 0 0 2) \<noteq> slice_elems (heap meta_world) (Slice 1 0 2)"
    unfolding meta_elems by simp
  note t = fingerprint_order_independent [OF m, where ev = ev0 and dir = "''pkg''"
      and version = "''v1''"]
  from t have eq: "installMeta ev0 ''pkg'' ''v1'' (Slice 0 0 2) meta_world
                     = installMeta ev0 ''pkg'' ''v1'' (Slice 1 0 2) meta_world"
    by (rule conjunct1)
  from t meta_run obtain src where
    ms: "json_Marshal ev0
           \<lparr>Version = ''v1'',
            Hash = xxh3_128 ev0
                     (concat (map (file_bytes meta_world)
                        (sort (slice_elems (heap meta_world) (Slice 0 0 2)))))\<rparr> = Inr src"
    and o: "os_Open (snd (installMeta ev0 ''pkg'' ''v1'' (Slice 0 0 2) meta_world))
              (filepath_Join [''pkg'', MetadataFilename]) = Inr \<lparr>rd_data = src, rd_err = None\<rparr>"
    by blast
  from ms have "src = ''v1#''"
    unfolding meta_elems meta_stream meta_marshal by simp
  with o have "os_Open (snd (installMeta ev0 ''pkg'' ''v1'' (Slice 0 0 2) meta_world)) ''pkg/dist.json''
                 = Inr \<lparr>rd_data = ''v1#'', rd_err = None\<rparr>"
    unfolding meta_path by simp
  with m d eq meta_run show ?thesis
    by (simp only: simp_thms)
qed

theorem installMeta_keeps_callers_slice_witness:
  "valid_slice (heap meta_world) (Slice 0 0 2)
   \<and> slice_elems (heap (snd (installMeta ev0 ''pkg'' ''v1'' (Slice 0 0 2) meta_world))) (Slice 0 0 2)
       = [''b.bin'', ''a.bin'']
   \<and> heap (snd (installMeta ev0 ''pkg'' ''v1'' (Slice 0 0 2) meta_world))
       = [[''b.bin'', ''a.bin''], [''a.bin'', ''b.bin''], [''a.bin'', ''b.bin'']]"
proof -
  have v: "valid_slice (heap meta_world) (Slice 0 0 2)"
    by (simp add: valid_slice_def meta_world_def)
  from installMeta_keeps_callers_slice [where w = meta_world and s = "Slice 0 0 2"
      and ev = ev0 and dir = "''pkg''" and version = "''v1''"] v meta_heap
  show ?thesis
    by (simp only: meta_elems simp_thms)
qed

end
